theory Spec2Isabelle
  imports Complex_Main "HOL-Library.AList"
begin

section \<open>The Tango transport of ophyd-async: model\<close>

text \<open>
  A shallow embedding of \<^verbatim>\<open>src/ophyd_async/tango/_backend/_tango_transport.py\<close>.
  Every \<^verbatim>\<open>raise\<close> of the source is a value of \<open>exn\<close>; a function that may
  raise returns \<open>exn + 'a\<close> with \<open>Inl\<close> for the exception. Calls into the Tango
  client library are not computed: what such a call answers is an argument
  of the model (a record of answers), so that every statement holds for all
  answers the library may give.
\<close>

subsection \<open>Exceptions and values\<close>

datatype exn =
    TypeError string
  | RuntimeError string
  | ValueError string
  | NameError string
  | AttributeError string
  | AssertionError string
  | NotConnected string
  | IndexError string
  | KeyError string
  | CancelledError
  | DevFailed string

text \<open>The Python values that travel through a proxy.\<close>

datatype pyval =
    PyNone
  | PyBool bool
  | PyInt int
  | PyFloat real
  | PyStr string
  | PyList "pyval list"

subsection \<open>Type mapper: \<^verbatim>\<open>get_pyton_type\<close>\<close>

text \<open>The members of \<^verbatim>\<open>tango.CmdArgType\<close>, in the order of their numeric values.\<close>

datatype CmdArgType =
    DevVoid
  | DevBoolean
  | DevShort
  | DevLong
  | DevFloat
  | DevDouble
  | DevUShort
  | DevULong
  | DevString
  | DevVarCharArray
  | DevVarShortArray
  | DevVarLongArray
  | DevVarFloatArray
  | DevVarDoubleArray
  | DevVarUShortArray
  | DevVarULongArray
  | DevVarStringArray
  | DevVarLongStringArray
  | DevVarDoubleStringArray
  | DevState
  | ConstDevString
  | DevVarBooleanArray
  | DevUChar
  | DevLong64
  | DevULong64
  | DevVarLong64Array
  | DevVarULong64Array
  | DevInt
  | DevEncoded
  | DevEnum
  | DevPipeBlob
  | DevVarStateArray

text \<open>
  The second component of the triple the mapper returns: the Python objects
  \<^verbatim>\<open>int\<close>, \<^verbatim>\<open>float\<close>, \<^verbatim>\<open>bool\<close>, \<^verbatim>\<open>str\<close>, \<^verbatim>\<open>list[str]\<close>, \<^verbatim>\<open>Enum\<close>,
  \<^verbatim>\<open>CmdArgType.DevState\<close> and \<^verbatim>\<open>None\<close>.
\<close>

datatype pytype =
    Py_int
  | Py_float
  | Py_bool
  | Py_str
  | Py_list_str
  | Py_Enum
  | Py_DevState
  | Py_None

text \<open>
  Modelled from the spec: the family predicates \<^verbatim>\<open>is_int\<close>, \<^verbatim>\<open>is_float\<close>,
  \<^verbatim>\<open>is_bool\<close>, \<^verbatim>\<open>is_str\<close>, \<^verbatim>\<open>is_binary\<close> and \<^verbatim>\<open>is_array\<close> are imported from
  \<^verbatim>\<open>tango.utils\<close>, which is not part of the repository. The families below
  are the ones of the spec's mapping table (signed and unsigned integers,
  float and double, boolean, string, binary or encoded), tag by tag as the
  expected values of \<^verbatim>\<open>tests/tango/test_tango_transport.py\<close> list them. The
  second argument is the library's \<^verbatim>\<open>inc_array\<close> flag.
\<close>

definition scalar_int_types :: "CmdArgType list" where
  "scalar_int_types = [DevShort, DevUShort, DevInt, DevLong, DevULong, DevLong64, DevULong64]"

definition array_int_types :: "CmdArgType list" where
  "array_int_types = [DevVarShortArray, DevVarUShortArray, DevVarLongArray, DevVarULongArray,
     DevVarLong64Array, DevVarULong64Array]"

definition scalar_float_types :: "CmdArgType list" where
  "scalar_float_types = [DevFloat, DevDouble]"

definition array_float_types :: "CmdArgType list" where
  "array_float_types = [DevVarFloatArray, DevVarDoubleArray]"

definition scalar_str_types :: "CmdArgType list" where
  "scalar_str_types = [DevString, ConstDevString]"

definition array_str_types :: "CmdArgType list" where
  "array_str_types = [DevVarStringArray]"

definition binary_types :: "CmdArgType list" where
  "binary_types = [DevEncoded, DevVarCharArray]"

definition array_types :: "CmdArgType list" where
  "array_types = array_int_types @ array_float_types @ [DevVarBooleanArray] @ array_str_types
     @ [DevVarCharArray, DevVarDoubleStringArray, DevVarLongStringArray]"

definition is_int :: "CmdArgType \<Rightarrow> bool \<Rightarrow> bool" where
  "is_int tg_type inc_array =
     (if tg_type \<in> set scalar_int_types then True
      else if \<not> inc_array then False
      else tg_type \<in> set array_int_types)"

definition is_float :: "CmdArgType \<Rightarrow> bool \<Rightarrow> bool" where
  "is_float tg_type inc_array =
     (if tg_type \<in> set scalar_float_types then True
      else if \<not> inc_array then False
      else tg_type \<in> set array_float_types)"

definition is_bool :: "CmdArgType \<Rightarrow> bool \<Rightarrow> bool" where
  "is_bool tg_type inc_array =
     (if tg_type = DevBoolean then True
      else if \<not> inc_array then False
      else tg_type = DevVarBooleanArray)"

definition is_str :: "CmdArgType \<Rightarrow> bool \<Rightarrow> bool" where
  "is_str tg_type inc_array =
     (if tg_type \<in> set scalar_str_types then True
      else if \<not> inc_array then False
      else tg_type \<in> set array_str_types)"

definition is_binary :: "CmdArgType \<Rightarrow> bool \<Rightarrow> bool" where
  "is_binary tg_type inc_array = (tg_type \<in> set binary_types)"

definition is_array :: "CmdArgType \<Rightarrow> bool" where
  "is_array tg_type = (tg_type \<in> set array_types)"

text \<open>
  \<^verbatim>\<open>get_pyton_type\<close> (the source's spelling), lines 66 to 86: the array flag
  is computed first and returned by whichever branch answers.
\<close>

definition get_pyton_type :: "CmdArgType \<Rightarrow> exn + (bool \<times> pytype \<times> string)" where
  "get_pyton_type tango_type =
     (let array = is_array tango_type in
      if is_int tango_type True then Inr (array, Py_int, ''integer'')
      else if is_float tango_type True then Inr (array, Py_float, ''number'')
      else if is_bool tango_type True then Inr (array, Py_bool, ''integer'')
      else if is_str tango_type True then Inr (array, Py_str, ''string'')
      else if is_binary tango_type True then Inr (array, Py_list_str, ''string'')
      else if tango_type = DevEnum then Inr (array, Py_Enum, ''string'')
      else if tango_type = DevState then Inr (array, Py_DevState, ''string'')
      else if tango_type = DevUChar then Inr (array, Py_int, ''integer'')
      else if tango_type = DevVoid then Inr (array, Py_None, ''string'')
      else Inl (TypeError ''Unknown TangoType''))"

subsection \<open>Descriptor builder: \<^verbatim>\<open>get_trl_descriptor\<close>\<close>

datatype AttrDataFormat = SCALAR | SPECTRUM | IMAGE | FMT_UNKNOWN

text \<open>The fields of the library's \<^verbatim>\<open>AttributeInfoEx\<close> and \<^verbatim>\<open>CommandInfo\<close> the source reads.\<close>

record AttributeInfoEx =
  data_type :: CmdArgType
  data_format :: AttrDataFormat
  max_dim_x :: int
  max_dim_y :: int
  enum_labels :: "string list"

record CommandInfo =
  in_type :: CmdArgType
  out_type :: CmdArgType

text \<open>
  A value of the dictionary \<^verbatim>\<open>tr_configs\<close>. \<open>Other_config\<close> carries the rendering
  of \<^verbatim>\<open>type(config)\<close> for a value that is neither of the two.
\<close>

datatype config =
    Attribute_config AttributeInfoEx
  | Command_config CommandInfo
  | Other_config string

text \<open>A dimension of a shape: a Python integer, or \<^verbatim>\<open>np.Inf\<close>.\<close>

datatype dim = Dim int | Inf

text \<open>
  The dictionary \<^verbatim>\<open>get_trl_descriptor\<close> returns. The key \<^verbatim>\<open>choices\<close> is present
  only for enumerations and device states.
\<close>

record descriptor =
  source :: string
  dtype :: string
  shape :: "dim list"
  choices :: "string list option"

text \<open>
  The argument \<^verbatim>\<open>datatype\<close> is a Python class or a numpy array annotation.
  The source only observes it through \<^verbatim>\<open>get_dtype_extended\<close> (which rests on
  \<^verbatim>\<open>get_dtype\<close> of \<^verbatim>\<open>ophyd_async.core\<close> and on numpy), \<^verbatim>\<open>issubclass\<close>,
  iteration over its members and \<^verbatim>\<open>__name__\<close>; the record holds what these
  observations answer. \<^verbatim>\<open>None\<close> is \<open>None\<close>; a class is always truthy.
\<close>

record expected_type =
  exp_name :: string
  exp_dtype_truthy :: bool
  exp_dtype_str :: string
  exp_dtype_equals :: "pytype \<Rightarrow> bool"
  exp_is_enum_or_state :: bool
  exp_member_names :: "string list"
  exp_is_superclass_of :: "pytype \<Rightarrow> bool"

text \<open>\<^verbatim>\<open>str\<close> and \<^verbatim>\<open>__name__\<close> of the type objects, for the messages.\<close>

fun str_pytype :: "pytype \<Rightarrow> string" where
  "str_pytype Py_int = ''<class 'int'>''"
| "str_pytype Py_float = ''<class 'float'>''"
| "str_pytype Py_bool = ''<class 'bool'>''"
| "str_pytype Py_str = ''<class 'str'>''"
| "str_pytype Py_list_str = ''list[str]''"
| "str_pytype Py_Enum = ''<enum 'Enum'>''"
| "str_pytype Py_DevState = ''DevState''"
| "str_pytype Py_None = ''None''"

fun name_pytype :: "pytype \<Rightarrow> string" where
  "name_pytype Py_int = ''int''"
| "name_pytype Py_float = ''float''"
| "name_pytype Py_bool = ''bool''"
| "name_pytype Py_str = ''str''"
| "name_pytype Py_list_str = ''list''"
| "name_pytype Py_Enum = ''Enum''"
| "name_pytype Py_DevState = ''DevState''"
| "name_pytype Py_None = ''None''"

text \<open>\<^verbatim>\<open>list(DevState.names.keys())\<close>: the library's fixed list of state names.\<close>

definition DevState_names :: "string list" where
  "DevState_names = [''ON'', ''OFF'', ''CLOSE'', ''OPEN'', ''INSERT'', ''EXTRACT'', ''MOVING'',
     ''STANDBY'', ''FAULT'', ''INIT'', ''RUNNING'', ''ALARM'', ''DISABLE'', ''UNKNOWN'']"

text \<open>
  Modelled from the spec: \<^verbatim>\<open>get_unique\<close> is imported from \<^verbatim>\<open>ophyd_async.core\<close>,
  which is not under \<^verbatim>\<open>src/\<close>. All supplied configs must agree: the common
  value is returned when the values of the dictionary are one and the same,
  and anything else (no value at all included) is a type mismatch. The
  message names the keys.
\<close>

definition get_unique :: "(string \<times> 'a) list \<Rightarrow> string \<Rightarrow> exn + 'a" where
  "get_unique vals types =
     (case remdups (map snd vals) of
        [v] \<Rightarrow> Inr v
      | _ \<Rightarrow> Inl (TypeError (concat (map (\<lambda>(k, v). k @ '' has '' @ types @ ''; '') vals))))"

text \<open>The body of the loop over \<^verbatim>\<open>tr_configs.items()\<close>, lines 274 to 286.\<close>

definition tr_dtype_of :: "config \<Rightarrow> exn + (AttrDataFormat \<times> pytype \<times> string)" where
  "tr_dtype_of cfg =
     (case cfg of
        Attribute_config c \<Rightarrow>
          (case get_pyton_type (data_type c) of
             Inl e \<Rightarrow> Inl e
           | Inr (_, dt, descr) \<Rightarrow> Inr (data_format c, dt, descr))
      | Command_config c \<Rightarrow>
          if in_type c \<noteq> DevVoid \<and> out_type c \<noteq> DevVoid \<and> in_type c \<noteq> out_type c
          then Inl (RuntimeError ''Commands with different in and out dtypes are not supported'')
          else
            (case get_pyton_type (if in_type c \<noteq> DevVoid then in_type c else out_type c) of
               Inl e \<Rightarrow> Inl e
             | Inr (array, dt, descr) \<Rightarrow> Inr (if array then SPECTRUM else SCALAR, dt, descr))
      | Other_config ty \<Rightarrow> Inl (RuntimeError (''Unknown config type: '' @ ty)))"

text \<open>
  The loop: a dictionary is an association list in insertion order, and
  \<^verbatim>\<open>tr_dtype[tr_name] = ...\<close> is \<open>AList.update\<close>. The first failing entry
  ends the loop with its exception.
\<close>

fun collect_tr_dtype ::
  "(string \<times> config) list \<Rightarrow> (string \<times> AttrDataFormat \<times> pytype \<times> string) list
     \<Rightarrow> exn + (string \<times> AttrDataFormat \<times> pytype \<times> string) list" where
  "collect_tr_dtype [] tr_dtype = Inr tr_dtype"
| "collect_tr_dtype ((tr_name, cfg) # rest) tr_dtype =
     (case tr_dtype_of cfg of
        Inl e \<Rightarrow> Inl e
      | Inr v \<Rightarrow> collect_tr_dtype rest (AList.update tr_name v tr_dtype))"

text \<open>\<^verbatim>\<open>hasattr(trl_config, ...)\<close>: only an attribute's config has the three fields.\<close>

definition config_max_x :: "config \<Rightarrow> dim" where
  "config_max_x cfg = (case cfg of Attribute_config c \<Rightarrow> Dim (max_dim_x c) | _ \<Rightarrow> Inf)"

definition config_max_y :: "config \<Rightarrow> dim" where
  "config_max_y cfg = (case cfg of Attribute_config c \<Rightarrow> Dim (max_dim_y c) | _ \<Rightarrow> Inf)"

definition config_is_attr :: "config \<Rightarrow> bool" where
  "config_is_attr cfg = (case cfg of Attribute_config c \<Rightarrow> True | _ \<Rightarrow> False)"

definition config_choices :: "config \<Rightarrow> string list" where
  "config_choices cfg = (case cfg of Attribute_config c \<Rightarrow> enum_labels c | _ \<Rightarrow> [])"

text \<open>The check of an expected array type, lines 298 to 304: the exception it raises, if any.\<close>

definition check_array_datatype ::
  "expected_type option \<Rightarrow> string \<Rightarrow> pytype \<Rightarrow> exn option" where
  "check_array_datatype datatype tango_resource tr_dtype =
     (case datatype of
        None \<Rightarrow> None
      | Some dt \<Rightarrow>
          if \<not> exp_dtype_truthy dt
          then Some (TypeError (tango_resource @ '' has type ['' @ str_pytype tr_dtype @ ''] not ''
                 @ exp_name dt))
          else if \<not> exp_dtype_equals dt tr_dtype
          then Some (TypeError (tango_resource @ '' has type ['' @ str_pytype tr_dtype @ ''] not [''
                 @ exp_dtype_str dt @ '']''))
          else None)"

text \<open>The check of an expected enumeration, lines 316 to 322.\<close>

definition check_enum_datatype ::
  "expected_type option \<Rightarrow> string \<Rightarrow> pytype \<Rightarrow> bool \<Rightarrow> string list \<Rightarrow> exn option" where
  "check_enum_datatype datatype tango_resource tr_dtype is_attr trl_choices =
     (case datatype of
        None \<Rightarrow> None
      | Some dt \<Rightarrow>
          if \<not> exp_is_enum_or_state dt
          then Some (TypeError (tango_resource @ '' has type Enum not '' @ exp_name dt))
          else if tr_dtype = Py_Enum \<and> is_attr \<and> set (exp_member_names dt) \<noteq> set trl_choices
          then Some (TypeError (tango_resource @ '' has choices '' @ concat trl_choices @ '' not ''
                 @ concat (exp_member_names dt)))
          else None)"

text \<open>The check of an expected scalar type, lines 325 and 326.\<close>

definition check_scalar_datatype ::
  "expected_type option \<Rightarrow> string \<Rightarrow> pytype \<Rightarrow> exn option" where
  "check_scalar_datatype datatype tango_resource tr_dtype =
     (case datatype of
        None \<Rightarrow> None
      | Some dt \<Rightarrow>
          if \<not> exp_is_superclass_of dt tr_dtype
          then Some (TypeError (tango_resource @ '' has type '' @ name_pytype tr_dtype @ '' not ''
                 @ exp_name dt))
          else None)"

text \<open>
  \<^verbatim>\<open>get_trl_descriptor\<close>, lines 270 to 327. \<^verbatim>\<open>list(tr_configs.values())[0]\<close> is
  the first entry; the empty dictionary never reaches it, as \<open>get_unique\<close>
  has failed before.
\<close>

definition get_trl_descriptor ::
  "expected_type option \<Rightarrow> string \<Rightarrow> (string \<times> config) list \<Rightarrow> exn + descriptor" where
  "get_trl_descriptor datatype tango_resource tr_configs =
     (case collect_tr_dtype tr_configs [] of
        Inl e \<Rightarrow> Inl e
      | Inr tr_dtypes \<Rightarrow>
     (case get_unique tr_dtypes ''typeids'' of
        Inl e \<Rightarrow> Inl e
      | Inr (tr_format, tr_dtype, tr_dtype_desc) \<Rightarrow>
     (case tr_configs of
        [] \<Rightarrow> Inl (IndexError ''list index out of range'')
      | (_, trl_config) # _ \<Rightarrow>
          let max_x = config_max_x trl_config;
              max_y = config_max_y trl_config;
              is_attr = config_is_attr trl_config;
              trl_choices = config_choices trl_config
          in
          if tr_format = SPECTRUM \<or> tr_format = IMAGE then
            (case check_array_datatype datatype tango_resource tr_dtype of
               Some e \<Rightarrow> Inl e
             | None \<Rightarrow>
                 if tr_format = SPECTRUM
                 then Inr \<lparr>source = tango_resource, dtype = ''array'', shape = [max_x],
                        choices = None\<rparr>
                 else Inr \<lparr>source = tango_resource, dtype = ''array'', shape = [max_y, max_x],
                        choices = None\<rparr>)
          else if tr_dtype = Py_Enum \<or> tr_dtype = Py_DevState then
            (let trl_choices' = (if tr_dtype = Py_DevState then DevState_names else trl_choices) in
             case check_enum_datatype datatype tango_resource tr_dtype is_attr trl_choices' of
               Some e \<Rightarrow> Inl e
             | None \<Rightarrow> Inr \<lparr>source = tango_resource, dtype = ''string'', shape = [],
                        choices = Some trl_choices'\<rparr>)
          else
            (case check_scalar_datatype datatype tango_resource tr_dtype of
               Some e \<Rightarrow> Inl e
             | None \<Rightarrow> Inr \<lparr>source = tango_resource, dtype = tr_dtype_desc, shape = [],
                        choices = None\<rparr>))))"

subsection \<open>Endpoint proxies\<close>

text \<open>
  What the model keeps of a connected \<^verbatim>\<open>tango.asyncio.DeviceProxy\<close>: its name and
  the three member lists \<^verbatim>\<open>get_tango_trl\<close> asks for.
\<close>

record DeviceProxy =
  dev_name :: string
  attribute_list :: "string list"
  command_list :: "string list"
  pipe_list :: "string list"

text \<open>A callback is a Python function; the model tells callbacks apart by a number.\<close>

datatype callback = Callback nat

record Reading =
  reading_value :: pyval
  timestamp :: real
  alarm_severity :: int

text \<open>The library's \<^verbatim>\<open>AttrQuality.ATTR_VALID\<close>, the quality "valid", is the integer 0.\<close>

definition ATTR_VALID :: int where
  "ATTR_VALID = 0"

text \<open>
  \<^verbatim>\<open>AttributeProxy\<close>: the two constructor arguments, and the attributes
  \<^verbatim>\<open>_event_callback\<close> and \<^verbatim>\<open>_eid\<close>, \<^verbatim>\<open>None\<close> in the class.
\<close>

record AttributeProxy =
  attr_proxy :: DeviceProxy
  attr_name :: string
  event_callback :: "callback option"
  eid :: "int option"

text \<open>\<^verbatim>\<open>CommandProxy\<close>: the two constructor arguments and \<^verbatim>\<open>_last_reading\<close>.\<close>

record CommandProxy =
  cmd_proxy :: DeviceProxy
  cmd_name :: string
  last_reading :: Reading

datatype TangoProxy =
    Attribute AttributeProxy
  | Command CommandProxy

definition new_AttributeProxy :: "DeviceProxy \<Rightarrow> string \<Rightarrow> AttributeProxy" where
  "new_AttributeProxy device_proxy name =
     \<lparr>attr_proxy = device_proxy, attr_name = name, event_callback = None, eid = None\<rparr>"

definition new_CommandProxy :: "DeviceProxy \<Rightarrow> string \<Rightarrow> CommandProxy" where
  "new_CommandProxy device_proxy name =
     \<lparr>cmd_proxy = device_proxy, cmd_name = name,
      last_reading = \<lparr>reading_value = PyNone, timestamp = 0, alarm_severity = 0\<rparr>\<rparr>"

text \<open>
  The calls of the source into the Tango client library and into the
  runtime, as a record of answers. An awaited call that is cancelled answers
  \<open>Inl CancelledError\<close>. \<open>reply_ready rid k\<close> is what the \<open>k\<close>-th check for the
  reply of the asynchronous request \<open>rid\<close> answers, \<open>sleep_cancelled k\<close> tells
  whether the task is cancelled during the \<open>k\<close>-th \<^verbatim>\<open>asyncio.sleep\<close> of a
  polling loop, and \<open>time_now\<close> is \<^verbatim>\<open>time.time()\<close> at the end of a command.
\<close>

record tango =
  connect_device :: "string \<Rightarrow> exn + DeviceProxy"
  get_attribute_config :: "DeviceProxy \<Rightarrow> string \<Rightarrow> exn + AttributeInfoEx"
  get_command_config :: "DeviceProxy \<Rightarrow> string \<Rightarrow> exn + CommandInfo"
  write_attribute :: "DeviceProxy \<Rightarrow> string \<Rightarrow> pyval \<Rightarrow> exn + unit"
  write_attribute_asynch :: "DeviceProxy \<Rightarrow> string \<Rightarrow> pyval \<Rightarrow> exn + int"
  command_inout :: "DeviceProxy \<Rightarrow> string \<Rightarrow> pyval \<Rightarrow> exn + pyval"
  command_inout_asynch :: "DeviceProxy \<Rightarrow> string \<Rightarrow> pyval \<Rightarrow> exn + int"
  reply_ready :: "int \<Rightarrow> nat \<Rightarrow> exn + pyval"
  sleep_cancelled :: "nat \<Rightarrow> bool"
  time_now :: real
  subscribe_event :: "DeviceProxy \<Rightarrow> string \<Rightarrow> exn + int"
  unsubscribe_event :: "DeviceProxy \<Rightarrow> int \<Rightarrow> exn + unit"

text \<open>
  The names bound at module level in \<^verbatim>\<open>_tango_transport.py\<close>: its imports, the
  constant \<^verbatim>\<open>A_BIT\<close>, and its functions and classes. A name a function body
  reads without binding it is looked up here and then among the builtins.
\<close>

definition module_globals :: "string list" where
  "module_globals =
    [''asyncio'', ''time'', ''functools'', ''np'', ''CancelledError'', ''abstractmethod'',
     ''Enum'', ''Dict'', ''Optional'', ''Type'', ''Union'', ''AttributeInfoEx'',
     ''AttrDataFormat'', ''CmdArgType'', ''EventType'', ''GreenMode'', ''DevState'',
     ''CommandInfo'', ''AttrWriteType'', ''DeviceProxy'', ''get_global_executor'',
     ''set_global_executor'', ''AsyncioExecutor'', ''is_int'', ''is_float'', ''is_bool'',
     ''is_str'', ''is_binary'', ''is_array'', ''Descriptor'', ''Reading'', ''NotConnected'',
     ''ReadingValueCallback'', ''SignalBackend'', ''T'', ''get_dtype'', ''get_unique'',
     ''wait_for_connection'', ''__all__'', ''A_BIT'', ''ensure_proper_executor'',
     ''TangoSignalBackend'', ''get_pyton_type'', ''TangoProxy'', ''AttributeProxy'',
     ''CommandProxy'', ''get_dtype_extended'', ''get_trl_descriptor'', ''get_tango_trl'',
     ''TangoTransport'']"

text \<open>
  The body of the \<^verbatim>\<open>try\<close> in the polling loops, \<^verbatim>\<open>await dev.write_attribute_reply(rid)\<close>
  and \<^verbatim>\<open>await dev.command_inout_reply(rid)\<close>: the name \<^verbatim>\<open>dev\<close> is neither a
  parameter nor a local of \<^verbatim>\<open>put\<close> (these are \<^verbatim>\<open>self\<close>, \<^verbatim>\<open>value\<close>, \<^verbatim>\<open>wait\<close>,
  \<^verbatim>\<open>timeout\<close>, \<^verbatim>\<open>rid\<close>, \<^verbatim>\<open>finished\<close>, \<^verbatim>\<open>val\<close>) and no builtin, so it is
  resolved among the module's names before the reply is asked for.
\<close>

definition reply_attempt :: "tango \<Rightarrow> int \<Rightarrow> nat \<Rightarrow> exn + pyval" where
  "reply_attempt tg rid k =
     (if ''dev'' \<in> set module_globals then reply_ready tg rid k
      else Inl (NameError ''name 'dev' is not defined''))"

text \<open>
  The loop \<^verbatim>\<open>while not finished\<close>, lines 166 to 171 and 239 to 244. The bare
  \<^verbatim>\<open>except\<close> catches whatever the attempt raises and awaits
  \<^verbatim>\<open>asyncio.sleep(A_BIT)\<close>; a cancellation that arrives during that sleep is
  raised inside the handler and leaves the loop. \<open>k\<close> counts the attempts
  made so far. The loop has no other exit, so it is a partial function:
  \<open>None\<close> is a loop that runs forever.
\<close>

partial_function (option) reply_loop :: "tango \<Rightarrow> int \<Rightarrow> nat \<Rightarrow> (exn + pyval) option" where
  "reply_loop tg rid k =
     (case reply_attempt tg rid k of
        Inr val \<Rightarrow> Some (Inr val)
      | Inl _ \<Rightarrow>
          if sleep_cancelled tg k then Some (Inl CancelledError)
          else reply_loop tg rid (Suc k))"

text \<open>\<^verbatim>\<open>if timeout:\<close> on an optional float: \<^verbatim>\<open>None\<close> and zero are false.\<close>

definition truthy_timeout :: "real option \<Rightarrow> bool" where
  "truthy_timeout timeout = (case timeout of None \<Rightarrow> False | Some t \<Rightarrow> t \<noteq> 0)"

text \<open>
  \<^verbatim>\<open>AttributeProxy.put\<close>, lines 159 to 171. The result is \<open>None\<close> when the call
  never returns. (The decorator \<^verbatim>\<open>ensure_proper_executor\<close> installs the global
  executor and then calls the method; it does not change what is returned.)
\<close>

definition AttributeProxy_put ::
  "tango \<Rightarrow> AttributeProxy \<Rightarrow> pyval \<Rightarrow> bool \<Rightarrow> real option \<Rightarrow> (exn + unit) option" where
  "AttributeProxy_put tg self val wait timeout =
     (if wait then Some (write_attribute tg (attr_proxy self) (attr_name self) val)
      else
        (case write_attribute_asynch tg (attr_proxy self) (attr_name self) val of
           Inl e \<Rightarrow> Some (Inl e)
         | Inr rid \<Rightarrow>
             if truthy_timeout timeout then
               (case reply_loop tg rid 0 of
                  None \<Rightarrow> None
                | Some (Inl e) \<Rightarrow> Some (Inl e)
                | Some (Inr _) \<Rightarrow> Some (Inr ()))
             else Some (Inr ())))"

text \<open>
  \<^verbatim>\<open>CommandProxy.put\<close>, lines 231 to 246: the proxy comes back with the new
  \<^verbatim>\<open>_last_reading\<close>; an exception leaves the proxy as it was.
\<close>

definition store_reading :: "tango \<Rightarrow> CommandProxy \<Rightarrow> pyval \<Rightarrow> CommandProxy" where
  "store_reading tg self val =
     self\<lparr>last_reading := \<lparr>reading_value = val, timestamp = time_now tg, alarm_severity = 0\<rparr>\<rparr>"

definition CommandProxy_put ::
  "tango \<Rightarrow> CommandProxy \<Rightarrow> pyval \<Rightarrow> bool \<Rightarrow> real option
     \<Rightarrow> ((exn + unit) \<times> CommandProxy) option" where
  "CommandProxy_put tg self val wait timeout =
     (if wait then
        (case command_inout tg (cmd_proxy self) (cmd_name self) val of
           Inl e \<Rightarrow> Some (Inl e, self)
         | Inr v \<Rightarrow> Some (Inr (), store_reading tg self v))
      else
        (case command_inout_asynch tg (cmd_proxy self) (cmd_name self) val of
           Inl e \<Rightarrow> Some (Inl e, self)
         | Inr rid \<Rightarrow>
             if truthy_timeout timeout then
               (case reply_loop tg rid 0 of
                  None \<Rightarrow> None
                | Some (Inl e) \<Rightarrow> Some (Inl e, self)
                | Some (Inr v) \<Rightarrow> Some (Inr (), store_reading tg self v))
             else Some (Inr (), store_reading tg self PyNone)))"

text \<open>\<^verbatim>\<open>CommandProxy.get\<close> and \<^verbatim>\<open>CommandProxy.get_reading\<close>, lines 226 and 254.\<close>

definition CommandProxy_get :: "CommandProxy \<Rightarrow> pyval" where
  "CommandProxy_get self = reading_value (last_reading self)"

definition CommandProxy_get_reading :: "CommandProxy \<Rightarrow> Reading" where
  "CommandProxy_get_reading self = last_reading self"

text \<open>
  The event calls that reach the device, in the order they are made: the
  trace the subscription methods extend.
\<close>

datatype event_call =
    Subscribe_event string
  | Unsubscribe_event int

text \<open>\<^verbatim>\<open>bool(self._eid)\<close>: \<^verbatim>\<open>None\<close> and the integer 0 are false.\<close>

definition truthy_eid :: "int option \<Rightarrow> bool" where
  "truthy_eid e = (case e of None \<Rightarrow> False | Some i \<Rightarrow> i \<noteq> 0)"

definition has_subscription :: "AttributeProxy \<Rightarrow> bool" where
  "has_subscription self = truthy_eid (eid self)"

text \<open>
  \<^verbatim>\<open>AttributeProxy.subscribe_callback\<close>, lines 194 to 199: the callback is
  stored first, so it stays stored when \<^verbatim>\<open>subscribe_event\<close> raises.
\<close>

definition subscribe_callback ::
  "tango \<Rightarrow> AttributeProxy \<Rightarrow> callback option \<Rightarrow> event_call list
     \<Rightarrow> (exn + unit) \<times> AttributeProxy \<times> event_call list" where
  "subscribe_callback tg self cb calls =
     (let self1 = self\<lparr>event_callback := cb\<rparr> in
      if \<not> truthy_eid (eid self1) then
        (case subscribe_event tg (attr_proxy self1) (attr_name self1) of
           Inl e \<Rightarrow> (Inl e, self1, calls @ [Subscribe_event (attr_name self1)])
         | Inr i \<Rightarrow> (Inr (), self1\<lparr>eid := Some i\<rparr>, calls @ [Subscribe_event (attr_name self1)]))
      else (Inr (), self1, calls))"

text \<open>\<^verbatim>\<open>AttributeProxy.unsubscribe_callback\<close>, lines 202 to 206.\<close>

definition unsubscribe_callback ::
  "tango \<Rightarrow> AttributeProxy \<Rightarrow> event_call list
     \<Rightarrow> (exn + unit) \<times> AttributeProxy \<times> event_call list" where
  "unsubscribe_callback tg self calls =
     (case eid self of
        None \<Rightarrow> (Inr (), self\<lparr>event_callback := None\<rparr>, calls)
      | Some i \<Rightarrow>
          if i \<noteq> 0 then
            (case unsubscribe_event tg (attr_proxy self) i of
               Inl e \<Rightarrow> (Inl e, self, calls @ [Unsubscribe_event i])
             | Inr _ \<Rightarrow> (Inr (), self\<lparr>eid := None, event_callback := None\<rparr>,
                         calls @ [Unsubscribe_event i]))
          else (Inr (), self\<lparr>event_callback := None\<rparr>, calls))"

subsection \<open>Resource resolver: \<^verbatim>\<open>get_tango_trl\<close>\<close>

text \<open>
  \<^verbatim>\<open>full_trl.rsplit('/', 1)\<close>, unpacked into two names: the text before the
  last slash and the text after it. Without a slash the list has one
  element and the unpacking raises \<^verbatim>\<open>ValueError\<close>.
\<close>

definition rsplit_slash :: "string \<Rightarrow> (string \<times> string) option" where
  "rsplit_slash s =
     (if CHR ''/'' \<in> set s
      then Some (rev (tl (dropWhile (\<lambda>c. c \<noteq> CHR ''/'') (rev s))),
                 rev (takeWhile (\<lambda>c. c \<noteq> CHR ''/'') (rev s)))
      else None)"

text \<open>
  \<^verbatim>\<open>get_tango_trl\<close>, lines 331 to 341. \<^verbatim>\<open>device_proxy or await DeviceProxy(device_trl)\<close>
  connects only when no device proxy is passed. In the third branch the
  source evaluates \<^verbatim>\<open>NotImplemented("Pipes are not supported")\<close>: the constant
  \<^verbatim>\<open>NotImplemented\<close> is not an exception class and not callable, so the call
  itself raises \<^verbatim>\<open>TypeError\<close> before any \<^verbatim>\<open>raise\<close> takes place.
\<close>

definition get_tango_trl :: "tango \<Rightarrow> string \<Rightarrow> DeviceProxy option \<Rightarrow> exn + TangoProxy" where
  "get_tango_trl tg full_trl device_proxy =
     (case rsplit_slash full_trl of
        None \<Rightarrow> Inl (ValueError ''not enough values to unpack (expected 2, got 1)'')
      | Some (device_trl, trl_name) \<Rightarrow>
          (case (case device_proxy of Some d \<Rightarrow> Inr d | None \<Rightarrow> connect_device tg device_trl) of
             Inl e \<Rightarrow> Inl e
           | Inr d \<Rightarrow>
               if trl_name \<in> set (attribute_list d)
               then Inr (Attribute (new_AttributeProxy d trl_name))
               else if trl_name \<in> set (command_list d)
               then Inr (Command (new_CommandProxy d trl_name))
               else if trl_name \<in> set (pipe_list d)
               then Inl (TypeError '''NotImplementedType' object is not callable'')
               else Inl (RuntimeError (trl_name @ '' cannot be found in '' @ dev_name d))))"

subsection \<open>Transport: \<^verbatim>\<open>TangoTransport\<close>\<close>

text \<open>
  A value of the dictionary \<^verbatim>\<open>self.proxies\<close>: the constructor stores the
  optional device proxy it was given, and connecting replaces it by the
  endpoint proxy.
\<close>

datatype proxy_slot =
    Unresolved "DeviceProxy option"
  | Resolved TangoProxy

record TangoTransport =
  transport_datatype :: "expected_type option"
  read_trl :: string
  write_trl :: string
  proxies :: "(string \<times> proxy_slot) list"
  trl_configs :: "(string \<times> config) list"
  transport_source :: string
  transport_descriptor :: "descriptor option"

text \<open>\<^verbatim>\<open>TangoTransport.__init__\<close>, lines 347 to 358.\<close>

definition new_TangoTransport ::
  "expected_type option \<Rightarrow> string \<Rightarrow> string \<Rightarrow> DeviceProxy option \<Rightarrow> TangoTransport" where
  "new_TangoTransport dt r w device_proxy =
     \<lparr>transport_datatype = dt, read_trl = r, write_trl = w,
      proxies = AList.update w (Unresolved device_proxy)
                  (AList.update r (Unresolved device_proxy) []),
      trl_configs = [],
      transport_source = r,
      transport_descriptor = None\<rparr>"

text \<open>\<^verbatim>\<open>get_config\<close> of either proxy variant, lines 176 and 250.\<close>

definition get_config :: "tango \<Rightarrow> TangoProxy \<Rightarrow> exn + config" where
  "get_config tg p =
     (case p of
        Attribute a \<Rightarrow>
          (case get_attribute_config tg (attr_proxy a) (attr_name a) of
             Inl e \<Rightarrow> Inl e | Inr c \<Rightarrow> Inr (Attribute_config c))
      | Command c \<Rightarrow>
          (case get_command_config tg (cmd_proxy c) (cmd_name c) of
             Inl e \<Rightarrow> Inl e | Inr i \<Rightarrow> Inr (Command_config i)))"

text \<open>
  The body of the \<^verbatim>\<open>try\<close> in \<^verbatim>\<open>_connect_and_store_config\<close>, lines 363 and 364.
  The transport comes back as far as it was updated when an exception ends
  the body. A slot that already holds an endpoint proxy is passed to
  \<^verbatim>\<open>get_tango_trl\<close> as if it were a device proxy, and has no
  \<^verbatim>\<open>get_attribute_list\<close>.
\<close>

definition connect_body :: "tango \<Rightarrow> TangoTransport \<Rightarrow> string \<Rightarrow> (exn + unit) \<times> TangoTransport" where
  "connect_body tg self trl =
     (case map_of (proxies self) trl of
        None \<Rightarrow> (Inl (KeyError trl), self)
      | Some slot \<Rightarrow>
          (case (case slot of
                   Unresolved device_proxy \<Rightarrow> get_tango_trl tg trl device_proxy
                 | Resolved _ \<Rightarrow>
                     (case rsplit_slash trl of
                        None \<Rightarrow> Inl (ValueError ''not enough values to unpack (expected 2, got 1)'')
                      | Some _ \<Rightarrow> Inl (AttributeError ''get_attribute_list''))) of
             Inl e \<Rightarrow> (Inl e, self)
           | Inr p \<Rightarrow>
               (let self1 = self\<lparr>proxies := AList.update trl (Resolved p) (proxies self)\<rparr> in
                case get_config tg p of
                  Inl e \<Rightarrow> (Inl e, self1)
                | Inr cfg \<Rightarrow>
                    (Inr (), self1\<lparr>trl_configs := AList.update trl cfg (trl_configs self1)\<rparr>))))"

text \<open>
  \<^verbatim>\<open>_connect_and_store_config\<close>, lines 361 to 366: the handler
  \<^verbatim>\<open>except CancelledError: raise NotConnected(self.source)\<close> around the body.
\<close>

definition connect_and_store_config ::
  "tango \<Rightarrow> TangoTransport \<Rightarrow> string \<Rightarrow> (exn + unit) \<times> TangoTransport" where
  "connect_and_store_config tg self trl =
     (case connect_body tg self trl of
        (Inl CancelledError, self') \<Rightarrow> (Inl (NotConnected (transport_source self')), self')
      | (r, self') \<Rightarrow> (r, self'))"

text \<open>
  \<^verbatim>\<open>connect\<close>, lines 369 to 379. \<^verbatim>\<open>wait_for_connection\<close> is imported from
  \<^verbatim>\<open>ophyd_async.core\<close> and is an argument \<open>wfc\<close> of the model: it receives, under
  the keywords of the call, what the two steps end with. The two steps write
  different keys of the two dictionaries; \<open>write_first\<close> tells which of them
  stores its config first when they run side by side.
\<close>

definition connect ::
  "((string \<times> (exn + unit)) list \<Rightarrow> exn + unit) \<Rightarrow> bool \<Rightarrow> tango \<Rightarrow> TangoTransport
     \<Rightarrow> (exn + unit) \<times> TangoTransport" where
  "connect wfc write_first tg self =
     (case (if read_trl self \<noteq> write_trl self then
              (if write_first then
                 (case connect_and_store_config tg self (write_trl self) of (rw, self1) \<Rightarrow>
                  case connect_and_store_config tg self1 (read_trl self) of (rr, self2) \<Rightarrow>
                    (wfc [(''read_trl'', rr), (''write_trl'', rw)], self2))
               else
                 (case connect_and_store_config tg self (read_trl self) of (rr, self1) \<Rightarrow>
                  case connect_and_store_config tg self1 (write_trl self) of (rw, self2) \<Rightarrow>
                    (wfc [(''read_trl'', rr), (''write_trl'', rw)], self2)))
            else connect_and_store_config tg self (read_trl self)) of
        (Inl e, self') \<Rightarrow> (Inl e, self')
      | (Inr _, self') \<Rightarrow>
          (case get_trl_descriptor (transport_datatype self') (read_trl self') (trl_configs self') of
             Inl e \<Rightarrow> (Inl e, self')
           | Inr d \<Rightarrow> (Inr (), self'\<lparr>transport_descriptor := Some d\<rparr>)))"

text \<open>
  The class attribute \<^verbatim>\<open>support_events\<close>, and \<^verbatim>\<open>has_subscription\<close>,
  \<^verbatim>\<open>subscribe_callback\<close> and \<^verbatim>\<open>unsubscribe_callback\<close> as a proxy of either
  variant answers them: \<^verbatim>\<open>CommandProxy\<close> inherits the three methods of
  \<^verbatim>\<open>TangoProxy\<close>, whose bodies are a docstring and return \<^verbatim>\<open>None\<close>.
\<close>

definition support_events :: "TangoProxy \<Rightarrow> bool" where
  "support_events p = (case p of Attribute _ \<Rightarrow> True | Command _ \<Rightarrow> False)"

definition proxy_has_subscription :: "TangoProxy \<Rightarrow> bool" where
  "proxy_has_subscription p = (case p of Attribute a \<Rightarrow> has_subscription a | Command _ \<Rightarrow> False)"

definition proxy_subscribe_callback ::
  "tango \<Rightarrow> TangoProxy \<Rightarrow> callback option \<Rightarrow> event_call list
     \<Rightarrow> (exn + unit) \<times> TangoProxy \<times> event_call list" where
  "proxy_subscribe_callback tg p cb calls =
     (case p of
        Attribute a \<Rightarrow>
          (case subscribe_callback tg a cb calls of (r, a', calls') \<Rightarrow> (r, Attribute a', calls'))
      | Command c \<Rightarrow> (Inr (), Command c, calls))"

definition proxy_unsubscribe_callback ::
  "tango \<Rightarrow> TangoProxy \<Rightarrow> event_call list \<Rightarrow> (exn + unit) \<times> TangoProxy \<times> event_call list" where
  "proxy_unsubscribe_callback tg p calls =
     (case p of
        Attribute a \<Rightarrow>
          (case unsubscribe_callback tg a calls of (r, a', calls') \<Rightarrow> (r, Attribute a', calls'))
      | Command c \<Rightarrow> (Inr (), Command c, calls))"

text \<open>
  \<^verbatim>\<open>TangoTransport.set_callback\<close>, lines 402 to 414, with assertions enabled.
  \<^verbatim>\<open>except Exception\<close> turns every exception of the subscription into a
  \<^verbatim>\<open>RuntimeError\<close>; \<^verbatim>\<open>CancelledError\<close> is no \<^verbatim>\<open>Exception\<close> and passes.
\<close>

definition set_callback ::
  "tango \<Rightarrow> TangoTransport \<Rightarrow> callback option \<Rightarrow> event_call list
     \<Rightarrow> (exn + unit) \<times> TangoTransport \<times> event_call list" where
  "set_callback tg self cb calls =
     (case map_of (proxies self) (read_trl self) of
        None \<Rightarrow> (Inl (KeyError (read_trl self)), self, calls)
      | Some (Unresolved _) \<Rightarrow> (Inl (AttributeError ''support_events''), self, calls)
      | Some (Resolved p) \<Rightarrow>
          if \<not> support_events p
          then (Inl (AssertionError (transport_source self @ '' does not support events'')),
                self, calls)
          else
            (case cb of
               Some _ \<Rightarrow>
                 if proxy_has_subscription p
                 then (Inl (AssertionError ''Cannot set a callback when one is already set''),
                       self, calls)
                 else
                   (case proxy_subscribe_callback tg p cb calls of (r, p', calls') \<Rightarrow>
                      (case r of
                         Inl CancelledError \<Rightarrow> Inl CancelledError
                       | Inl _ \<Rightarrow> Inl (RuntimeError (''Cannot set event for '' @ read_trl self
                            @ ''. This signal should be used only as non-cached!''))
                       | Inr _ \<Rightarrow> Inr (),
                       self\<lparr>proxies := AList.update (read_trl self) (Resolved p') (proxies self)\<rparr>,
                       calls'))
             | None \<Rightarrow>
                 (case proxy_unsubscribe_callback tg p calls of (r, p', calls') \<Rightarrow>
                    (r, self\<lparr>proxies := AList.update (read_trl self) (Resolved p') (proxies self)\<rparr>,
                     calls'))))"

subsection \<open>A device server for the examples\<close>

text \<open>
  The device of \<^verbatim>\<open>tests/tango/test_tango_transport.py\<close> and
  \<^verbatim>\<open>test_scripts/test1.py\<close>: the attributes \<^verbatim>\<open>justvalue\<close> (a scalar integer),
  \<^verbatim>\<open>array\<close> (an image of 2 rows and 3 columns) and \<^verbatim>\<open>limitedvalue\<close>, and the
  command \<^verbatim>\<open>clear\<close>; a pipe is added for the resolver. The command echoes its
  argument, a reply is ready at the third check, and event ids start at 1.
\<close>

definition test_device :: DeviceProxy where
  "test_device =
     \<lparr>dev_name = ''test/device/1'',
      attribute_list = [''justvalue'', ''array'', ''limitedvalue''],
      command_list = [''clear''],
      pipe_list = [''blob'']\<rparr>"

definition test_tango :: tango where
  "test_tango =
     \<lparr>connect_device =
        (\<lambda>device_trl. if device_trl = ''test/device/1'' then Inr test_device
                      else Inl (DevFailed ''API_DeviceNotDefined'')),
      get_attribute_config =
        (\<lambda>d name.
           if name = ''array''
           then Inr \<lparr>data_type = DevDouble, data_format = IMAGE, max_dim_x = 3, max_dim_y = 2,
                     enum_labels = []\<rparr>
           else if name = ''limitedvalue''
           then Inr \<lparr>data_type = DevDouble, data_format = SCALAR, max_dim_x = 1, max_dim_y = 0,
                     enum_labels = []\<rparr>
           else Inr \<lparr>data_type = DevLong, data_format = SCALAR, max_dim_x = 1, max_dim_y = 0,
                     enum_labels = []\<rparr>),
      get_command_config = (\<lambda>d name. Inr \<lparr>in_type = DevVoid, out_type = DevString\<rparr>),
      write_attribute = (\<lambda>d name v. Inr ()),
      write_attribute_asynch = (\<lambda>d name v. Inr 7),
      command_inout = (\<lambda>d name v. Inr v),
      command_inout_asynch = (\<lambda>d name v. Inr 8),
      reply_ready = (\<lambda>rid k. if k < 2 then Inl (DevFailed ''API_AsynReplyNotArrived'')
                               else Inr (PyStr ''done'')),
      sleep_cancelled = (\<lambda>k. False),
      time_now = 1700000000,
      subscribe_event = (\<lambda>d name. Inr 1),
      unsubscribe_event = (\<lambda>d i. Inr ())\<rparr>"

subsection \<open>The mapping table of the type mapper\<close>

text \<open>
  The table of the supported tags: the rows of \<^verbatim>\<open>test_get_python_type\<close> in
  \<^verbatim>\<open>tests/tango/test_tango_transport.py\<close>, and \<open>DevInt\<close> of the integer family.
\<close>

definition supported_table :: "(CmdArgType \<times> bool \<times> pytype \<times> string) list" where
  "supported_table =
    [(DevVoid, False, Py_None, ''string''),
     (DevBoolean, False, Py_bool, ''integer''),
     (DevShort, False, Py_int, ''integer''),
     (DevLong, False, Py_int, ''integer''),
     (DevFloat, False, Py_float, ''number''),
     (DevDouble, False, Py_float, ''number''),
     (DevUShort, False, Py_int, ''integer''),
     (DevULong, False, Py_int, ''integer''),
     (DevString, False, Py_str, ''string''),
     (DevVarCharArray, True, Py_list_str, ''string''),
     (DevVarShortArray, True, Py_int, ''integer''),
     (DevVarLongArray, True, Py_int, ''integer''),
     (DevVarFloatArray, True, Py_float, ''number''),
     (DevVarDoubleArray, True, Py_float, ''number''),
     (DevVarUShortArray, True, Py_int, ''integer''),
     (DevVarULongArray, True, Py_int, ''integer''),
     (DevVarStringArray, True, Py_str, ''string''),
     (DevState, False, Py_DevState, ''string''),
     (ConstDevString, False, Py_str, ''string''),
     (DevVarBooleanArray, True, Py_bool, ''integer''),
     (DevUChar, False, Py_int, ''integer''),
     (DevLong64, False, Py_int, ''integer''),
     (DevULong64, False, Py_int, ''integer''),
     (DevVarLong64Array, True, Py_int, ''integer''),
     (DevVarULong64Array, True, Py_int, ''integer''),
     (DevInt, False, Py_int, ''integer''),
     (DevEncoded, False, Py_list_str, ''string''),
     (DevEnum, False, Py_Enum, ''string'')]"

subsection \<open>The asyncio device proxy and asynchronous commands\<close>

text \<open>
  On the \<^verbatim>\<open>tango.asyncio.DeviceProxy\<close> of the client library,
  \<^verbatim>\<open>command_inout_asynch\<close> is not a coroutine function: it sends the request
  and returns the request id as a plain integer. The \<^verbatim>\<open>await\<close> of line 236 is
  then an \<^verbatim>\<open>await\<close> of an integer, which raises \<^verbatim>\<open>TypeError\<close>: that is what the
  awaited call answers on this library. \<open>asyncio_tango\<close> is the test library
  with this answer.
\<close>

definition asyncio_tango :: tango where
  "asyncio_tango =
     test_tango\<lparr>command_inout_asynch :=
       (\<lambda>d name v. Inl (TypeError ''object int can't be used in 'await' expression''))\<rparr>"

section \<open>Properties\<close>

subsection \<open>Shared facts\<close>

lemmas family_defs = is_int_def is_float_def is_bool_def is_str_def is_binary_def is_array_def
  scalar_int_types_def array_int_types_def scalar_float_types_def array_float_types_def
  scalar_str_types_def array_str_types_def binary_types_def array_types_def

lemma test_tango_simps:
  "connect_device test_tango ''test/device/1'' = Inr test_device"
  "write_attribute test_tango d n v = Inr ()"
  "write_attribute_asynch test_tango d n v = Inr 7"
  "command_inout test_tango d n v = Inr v"
  "command_inout_asynch test_tango d n v = Inr 8"
  "sleep_cancelled test_tango k = False"
  "time_now test_tango = 1700000000"
  "subscribe_event test_tango d n = Inr 1"
  "unsubscribe_event test_tango d i = Inr ()"
  "get_command_config test_tango d n = Inr \<lparr>in_type = DevVoid, out_type = DevString\<rparr>"
  by (simp_all add: test_tango_def)

subsection \<open>Type mapper\<close>

lemma get_pyton_type_supported:
  "\<forall>(t, r) \<in> set supported_table. get_pyton_type t = Inr r"
  by (simp add: supported_table_def get_pyton_type_def family_defs)

lemma get_pyton_type_unsupported:
  "t \<notin> fst ` set supported_table \<Longrightarrow> get_pyton_type t = Inl (TypeError ''Unknown TangoType'')"
  by (cases t) (simp_all add: supported_table_def get_pyton_type_def family_defs)

lemma get_pyton_type_array:
  "get_pyton_type t = Inr (a, k, d) \<Longrightarrow> a = is_array t"
  by (auto simp: get_pyton_type_def Let_def split: if_splits)

text \<open>
  Claim C3. For every tag of the supported table the mapper returns the row's
  triple: the integer families give \<^verbatim>\<open>int\<close> and "integer", the float families
  \<^verbatim>\<open>float\<close> and "number", the booleans \<^verbatim>\<open>bool\<close> and "integer", the strings
  \<^verbatim>\<open>str\<close> and "string", the binary and encoded tags \<^verbatim>\<open>list[str]\<close> and "string",
  and the enumeration, the device state and void the description "string".
  The first component of every answer is the array flag of the tag, whatever
  the kind. A tag outside the table raises \<^verbatim>\<open>TypeError("Unknown TangoType")\<close>.
\<close>

theorem get_pyton_type_table:
  "((t, r) \<in> set supported_table \<longrightarrow> get_pyton_type t = Inr r)
   \<and> (t \<notin> fst ` set supported_table \<longrightarrow> get_pyton_type t = Inl (TypeError ''Unknown TangoType''))
   \<and> (get_pyton_type t = Inr (a, k, d) \<longrightarrow> a = is_array t)"
proof -
  have "(t, r) \<in> set supported_table \<Longrightarrow> get_pyton_type t = Inr r"
    using get_pyton_type_supported by blast
  then show ?thesis
    using get_pyton_type_unsupported get_pyton_type_array by blast
qed

text \<open>An array of doubles is in the table; a pipe blob is not.\<close>

theorem get_pyton_type_table_witness:
  "(DevVarDoubleArray, True, Py_float, ''number'') \<in> set supported_table
   \<and> get_pyton_type DevVarDoubleArray = Inr (True, Py_float, ''number'')
   \<and> is_array DevVarDoubleArray
   \<and> DevPipeBlob \<notin> fst ` set supported_table
   \<and> get_pyton_type DevPipeBlob = Inl (TypeError ''Unknown TangoType'')"
  using get_pyton_type_table
          [of DevVarDoubleArray "(True, Py_float, ''number'')" True Py_float "''number''"]
        get_pyton_type_table [of DevPipeBlob]
  by (simp add: supported_table_def)

subsection \<open>Descriptor builder\<close>

text \<open>
  Claim C4. With no expected type, a single attribute config of a supported
  data type gives: for the format \<open>SPECTRUM\<close> the dtype "array" and the shape
  \<^verbatim>\<open>[max_dim_x]\<close>; for \<open>IMAGE\<close> the dtype "array" and the shape
  \<^verbatim>\<open>[max_dim_y, max_dim_x]\<close>, rows before columns; for \<open>SCALAR\<close> the empty
  shape, and for a scalar of an integer type the dtype "integer".
\<close>

theorem get_trl_descriptor_shape:
  assumes "get_pyton_type (data_type c) = Inr (a, k, d)"
  shows "(data_format c = SPECTRUM \<longrightarrow>
            get_trl_descriptor None src [(n, Attribute_config c)]
              = Inr \<lparr>source = src, dtype = ''array'', shape = [Dim (max_dim_x c)], choices = None\<rparr>)
       \<and> (data_format c = IMAGE \<longrightarrow>
            get_trl_descriptor None src [(n, Attribute_config c)]
              = Inr \<lparr>source = src, dtype = ''array'',
                     shape = [Dim (max_dim_y c), Dim (max_dim_x c)], choices = None\<rparr>)
       \<and> (data_format c = SCALAR \<longrightarrow>
            (\<exists>r. get_trl_descriptor None src [(n, Attribute_config c)] = Inr r
                 \<and> source r = src \<and> shape r = []))
       \<and> (data_format c = SCALAR \<and> is_int (data_type c) True \<longrightarrow>
            get_trl_descriptor None src [(n, Attribute_config c)]
              = Inr \<lparr>source = src, dtype = ''integer'', shape = [], choices = None\<rparr>)"
  using assms
  by (auto simp: get_trl_descriptor_def tr_dtype_of_def get_unique_def config_max_x_def
      config_max_y_def check_array_datatype_def check_enum_datatype_def check_scalar_datatype_def
      get_pyton_type_def Let_def split: if_splits)

text \<open>
  The two attributes of the tests: the image \<^verbatim>\<open>array\<close> of 2 rows and 3 columns
  has the shape \<^verbatim>\<open>[2, 3]\<close>, and the scalar integer \<^verbatim>\<open>justvalue\<close> the dtype
  "integer" and the empty shape.
\<close>

theorem get_trl_descriptor_shape_witness:
  "get_pyton_type DevDouble = Inr (False, Py_float, ''number'')
   \<and> get_trl_descriptor None ''test/device/1/array''
        [(''array'', Attribute_config \<lparr>data_type = DevDouble, data_format = IMAGE,
            max_dim_x = 3, max_dim_y = 2, enum_labels = []\<rparr>)]
      = Inr \<lparr>source = ''test/device/1/array'', dtype = ''array'', shape = [Dim 2, Dim 3],
             choices = None\<rparr>
   \<and> get_pyton_type DevLong = Inr (False, Py_int, ''integer'')
   \<and> is_int DevLong True
   \<and> get_trl_descriptor None ''test/device/1/justvalue''
        [(''justvalue'', Attribute_config \<lparr>data_type = DevLong, data_format = SCALAR,
            max_dim_x = 1, max_dim_y = 0, enum_labels = []\<rparr>)]
      = Inr \<lparr>source = ''test/device/1/justvalue'', dtype = ''integer'', shape = [],
             choices = None\<rparr>"
  using get_trl_descriptor_shape
          [of "\<lparr>data_type = DevDouble, data_format = IMAGE, max_dim_x = 3, max_dim_y = 2,
                enum_labels = []\<rparr>"
              False Py_float "''number''" "''test/device/1/array''" "''array''"]
        get_trl_descriptor_shape
          [of "\<lparr>data_type = DevLong, data_format = SCALAR, max_dim_x = 1, max_dim_y = 0,
                enum_labels = []\<rparr>"
              False Py_int "''integer''" "''test/device/1/justvalue''" "''justvalue''"]
  by (simp add: get_pyton_type_def family_defs)

lemma collect_tr_dtype_fails:
  assumes "(n, cfg) \<in> set cfgs" and "isl (tr_dtype_of cfg)"
  shows "isl (collect_tr_dtype cfgs acc)"
  using assms
  by (induction cfgs acc rule: collect_tr_dtype.induct) (auto split: sum.splits)

text \<open>The loop body raises the mismatch error for asymmetric commands and for nothing else.\<close>

lemma tr_dtype_of_mismatch:
  "tr_dtype_of cfg = Inl (RuntimeError ''Commands with different in and out dtypes are not supported'')
   \<longleftrightarrow> (\<exists>c. cfg = Command_config c \<and> in_type c \<noteq> DevVoid \<and> out_type c \<noteq> DevVoid
          \<and> in_type c \<noteq> out_type c)"
  by (auto simp: tr_dtype_of_def get_pyton_type_def Let_def
      split: config.splits sum.splits if_splits)

text \<open>The loop ends with the exception of the first entry that fails.\<close>

lemma collect_tr_dtype_prefix:
  assumes "\<forall>kv \<in> set pre. \<not> isl (tr_dtype_of (snd kv))" and "tr_dtype_of cfg = Inl e"
  shows "collect_tr_dtype (pre @ (n, cfg) # post) acc = Inl e"
  using assms
proof (induction pre arbitrary: acc)
  case Nil
  then show ?case by simp
next
  case (Cons kv pre)
  obtain k v where kv: "kv = (k, v)" by (cases kv)
  from Cons.prems kv obtain t where "tr_dtype_of v = Inr t"
    by (cases "tr_dtype_of v") auto
  with Cons kv show ?case by simp
qed

lemma collect_tr_dtype_error:
  "collect_tr_dtype cfgs acc = Inl e \<Longrightarrow> \<exists>kv \<in> set cfgs. tr_dtype_of (snd kv) = Inl e"
  by (induction cfgs acc rule: collect_tr_dtype.induct) (auto split: sum.splits)

lemma get_unique_TypeError: "get_unique vals types = Inl e \<Longrightarrow> \<exists>m. e = TypeError m"
  by (auto simp: get_unique_def split: list.splits)

text \<open>After the loop, \<^verbatim>\<open>get_trl_descriptor\<close> raises no \<^verbatim>\<open>RuntimeError\<close> of its own.\<close>

lemma get_trl_descriptor_RuntimeError:
  assumes "get_trl_descriptor dt src cfgs = Inl (RuntimeError m)"
  shows "collect_tr_dtype cfgs [] = Inl (RuntimeError m)"
proof (cases "collect_tr_dtype cfgs []")
  case (Inl e)
  with assms show ?thesis by (simp add: get_trl_descriptor_def)
next
  case (Inr tr)
  with assms show ?thesis
    by (auto simp: get_trl_descriptor_def Let_def check_array_datatype_def
        check_enum_datatype_def check_scalar_datatype_def
        split: sum.splits list.splits option.splits if_splits prod.splits
        dest: get_unique_TypeError)
qed

text \<open>
  Claim C5, as the source has it. A command whose input and output types
  are both not void and differ is refused: with the \<^verbatim>\<open>RuntimeError\<close> "Commands
  with different in and out dtypes are not supported" whenever the loop
  accepts every config that stands before it in the dictionary, and with
  some failure wherever it stands. A dictionary in which every command has a
  void input, a void output or equal types is never refused with that
  error. A command with a void input or a void output whose other type the
  type mapper accepts, alone and with no expected type, gets a descriptor.
\<close>

theorem asymmetric_command_rejected:
  "(in_type c \<noteq> DevVoid \<and> out_type c \<noteq> DevVoid \<and> in_type c \<noteq> out_type c \<longrightarrow>
      ((\<forall>kv \<in> set pre. \<not> isl (tr_dtype_of (snd kv))) \<longrightarrow>
         get_trl_descriptor dt src (pre @ (n, Command_config c) # post)
           = Inl (RuntimeError ''Commands with different in and out dtypes are not supported''))
      \<and> ((n, Command_config c) \<in> set cfgs \<longrightarrow> isl (get_trl_descriptor dt src cfgs)))
   \<and> ((\<forall>kv \<in> set cfgs. \<forall>c'. snd kv = Command_config c' \<longrightarrow>
          in_type c' = DevVoid \<or> out_type c' = DevVoid \<or> in_type c' = out_type c') \<longrightarrow>
        get_trl_descriptor dt src cfgs
          \<noteq> Inl (RuntimeError ''Commands with different in and out dtypes are not supported''))
   \<and> ((in_type c = DevVoid \<or> out_type c = DevVoid)
        \<and> get_pyton_type (if in_type c \<noteq> DevVoid then in_type c else out_type c) = Inr (a, k, d) \<longrightarrow>
        (\<exists>r. get_trl_descriptor None src [(n, Command_config c)] = Inr r \<and> source r = src))"
proof -
  let ?M = "RuntimeError ''Commands with different in and out dtypes are not supported''"
  have exact: "get_trl_descriptor dt src (pre @ (n, Command_config c) # post) = Inl ?M"
    if asym: "in_type c \<noteq> DevVoid" "out_type c \<noteq> DevVoid" "in_type c \<noteq> out_type c"
      and pre: "\<forall>kv \<in> set pre. \<not> isl (tr_dtype_of (snd kv))"
  proof -
    have "tr_dtype_of (Command_config c) = Inl ?M"
      using asym by (simp add: tr_dtype_of_def)
    from collect_tr_dtype_prefix [OF pre this]
    show ?thesis by (simp add: get_trl_descriptor_def)
  qed
  have anywhere: "isl (get_trl_descriptor dt src cfgs)"
    if asym: "in_type c \<noteq> DevVoid" "out_type c \<noteq> DevVoid" "in_type c \<noteq> out_type c"
      and mem: "(n, Command_config c) \<in> set cfgs"
  proof -
    have "isl (tr_dtype_of (Command_config c))"
      using asym by (simp add: tr_dtype_of_def)
    from collect_tr_dtype_fails [OF mem this] have "isl (collect_tr_dtype cfgs [])" .
    then show ?thesis
      by (auto simp: get_trl_descriptor_def isl_def)
  qed
  have never: "get_trl_descriptor dt src cfgs \<noteq> Inl ?M"
    if ok: "\<forall>kv \<in> set cfgs. \<forall>c'. snd kv = Command_config c' \<longrightarrow>
          in_type c' = DevVoid \<or> out_type c' = DevVoid \<or> in_type c' = out_type c'"
  proof
    assume "get_trl_descriptor dt src cfgs = Inl ?M"
    from get_trl_descriptor_RuntimeError [OF this]
    obtain kv where "kv \<in> set cfgs" "tr_dtype_of (snd kv) = Inl ?M"
      using collect_tr_dtype_error by blast
    with ok show False
      unfolding tr_dtype_of_mismatch by blast
  qed
  have void: "\<exists>r. get_trl_descriptor None src [(n, Command_config c)] = Inr r \<and> source r = src"
    if "in_type c = DevVoid \<or> out_type c = DevVoid"
      "get_pyton_type (if in_type c \<noteq> DevVoid then in_type c else out_type c) = Inr (a, k, d)"
    using that
    by (auto simp: get_trl_descriptor_def tr_dtype_of_def get_unique_def Let_def
        check_array_datatype_def check_enum_datatype_def check_scalar_datatype_def)
  show ?thesis
    using exact anywhere never void by blast
qed

text \<open>
  A command from a long to a string behind the attribute \<^verbatim>\<open>justvalue\<close>, which
  the loop accepts: the mismatch error. The command \<^verbatim>\<open>clear\<close>, without input
  and with a string for output: a descriptor, and not that error.
\<close>

theorem asymmetric_command_rejected_witness:
  "DevLong \<noteq> DevVoid \<and> DevString \<noteq> DevVoid \<and> DevLong \<noteq> DevString
   \<and> \<not> isl (tr_dtype_of (Attribute_config \<lparr>data_type = DevLong, data_format = SCALAR,
            max_dim_x = 1, max_dim_y = 0, enum_labels = []\<rparr>))
   \<and> get_trl_descriptor None ''test/device/1/justvalue''
        [(''test/device/1/justvalue'', Attribute_config \<lparr>data_type = DevLong,
            data_format = SCALAR, max_dim_x = 1, max_dim_y = 0, enum_labels = []\<rparr>),
         (''test/device/1/convert'', Command_config \<lparr>in_type = DevLong, out_type = DevString\<rparr>)]
      = Inl (RuntimeError ''Commands with different in and out dtypes are not supported'')
   \<and> get_pyton_type DevString = Inr (False, Py_str, ''string'')
   \<and> get_trl_descriptor None ''test/device/1/clear''
        [(''test/device/1/clear'', Command_config \<lparr>in_type = DevVoid, out_type = DevString\<rparr>)]
      \<noteq> Inl (RuntimeError ''Commands with different in and out dtypes are not supported'')
   \<and> (\<exists>r. get_trl_descriptor None ''test/device/1/clear''
        [(''test/device/1/clear'', Command_config \<lparr>in_type = DevVoid, out_type = DevString\<rparr>)]
      = Inr r \<and> source r = ''test/device/1/clear'')"
  using asymmetric_command_rejected
          [where c = "\<lparr>in_type = DevLong, out_type = DevString\<rparr>"
             and pre = "[(''test/device/1/justvalue'', Attribute_config \<lparr>data_type = DevLong,
                 data_format = SCALAR, max_dim_x = 1, max_dim_y = 0, enum_labels = []\<rparr>)]"
             and post = "[]" and n = "''test/device/1/convert''" and dt = None
             and src = "''test/device/1/justvalue''" and cfgs = "[]"]
        asymmetric_command_rejected
          [where c = "\<lparr>in_type = DevVoid, out_type = DevString\<rparr>"
             and n = "''test/device/1/clear''" and dt = None
             and src = "''test/device/1/clear''"
             and cfgs = "[(''test/device/1/clear'',
                           Command_config \<lparr>in_type = DevVoid, out_type = DevString\<rparr>)]"
             and a = False and k = Py_str and d = "''string''"]
  by (simp add: tr_dtype_of_def get_pyton_type_def family_defs)

text \<open>
  The claim as the spec states it asks for a failure whenever the two types
  differ. A command without input that returns a string has different
  types and is described by its output type.
\<close>

theorem void_input_command_accepted:
  "in_type \<lparr>in_type = DevVoid, out_type = DevString\<rparr>
     \<noteq> out_type \<lparr>in_type = DevVoid, out_type = DevString\<rparr>
   \<and> get_trl_descriptor None ''test/device/1/clear''
        [(''test/device/1/clear'', Command_config \<lparr>in_type = DevVoid, out_type = DevString\<rparr>)]
      = Inr \<lparr>source = ''test/device/1/clear'', dtype = ''string'', shape = [], choices = None\<rparr>"
  by (simp add: get_trl_descriptor_def tr_dtype_of_def get_unique_def
      check_scalar_datatype_def get_pyton_type_def family_defs)

subsection \<open>Resource resolver\<close>

text \<open>
  Claim C6. For a locator with a slash and a device proxy at hand, the member
  name is looked up in the attribute list, then in the command list, then in
  the pipe list: an attribute gives the attribute proxy, a command the
  command proxy, and a name in none of the lists the \<^verbatim>\<open>RuntimeError\<close> "cannot
  be found". A name only in the pipe list does not give an error that says
  pipes are unsupported: the source ends with the \<^verbatim>\<open>TypeError\<close> of calling
  \<^verbatim>\<open>NotImplemented\<close>.
\<close>

theorem get_tango_trl_resolution:
  assumes "rsplit_slash full_trl = Some (device_trl, trl_name)"
  shows "(trl_name \<in> set (attribute_list d) \<longrightarrow>
            get_tango_trl tg full_trl (Some d) = Inr (Attribute (new_AttributeProxy d trl_name)))
       \<and> (trl_name \<notin> set (attribute_list d) \<and> trl_name \<in> set (command_list d) \<longrightarrow>
            get_tango_trl tg full_trl (Some d) = Inr (Command (new_CommandProxy d trl_name)))
       \<and> (trl_name \<notin> set (attribute_list d) \<and> trl_name \<notin> set (command_list d)
            \<and> trl_name \<in> set (pipe_list d) \<longrightarrow>
            get_tango_trl tg full_trl (Some d)
              = Inl (TypeError '''NotImplementedType' object is not callable''))
       \<and> (trl_name \<notin> set (attribute_list d) \<and> trl_name \<notin> set (command_list d)
            \<and> trl_name \<notin> set (pipe_list d) \<longrightarrow>
            get_tango_trl tg full_trl (Some d)
              = Inl (RuntimeError (trl_name @ '' cannot be found in '' @ dev_name d)))"
  using assms by (simp add: get_tango_trl_def)

text \<open>The pipe \<^verbatim>\<open>blob\<close> of the test device.\<close>

theorem get_tango_trl_pipe:
  "rsplit_slash ''test/device/1/blob'' = Some (''test/device/1'', ''blob'')
   \<and> ''blob'' \<notin> set (attribute_list test_device)
   \<and> ''blob'' \<notin> set (command_list test_device)
   \<and> ''blob'' \<in> set (pipe_list test_device)
   \<and> get_tango_trl test_tango ''test/device/1/blob'' (Some test_device)
       = Inl (TypeError '''NotImplementedType' object is not callable'')"
  using get_tango_trl_resolution
          [of "''test/device/1/blob''" "''test/device/1''" "''blob''" test_device test_tango]
  by (simp add: rsplit_slash_def test_device_def)

subsection \<open>Endpoint proxies: the polling loop\<close>

lemma dev_unbound: "''dev'' \<notin> set module_globals"
  by (simp add: module_globals_def)

lemma reply_attempt_fails: "reply_attempt tg rid k = Inl (NameError ''name 'dev' is not defined'')"
  by (simp add: reply_attempt_def dev_unbound)

text \<open>
  Whenever the loop returns, it returns the cancellation of one of its
  sleeps: by fixpoint induction on the loop.
\<close>

lemma reply_loop_Some:
  assumes "reply_loop tg rid k = Some y"
  shows "y = Inl CancelledError \<and> (\<exists>j\<ge>k. sleep_cancelled tg j)"
proof (rule reply_loop.raw_induct
    [where P = "\<lambda>tg rid k y. y = Inl CancelledError \<and> (\<exists>j\<ge>k. sleep_cancelled tg j)", OF _ assms])
  fix loop tg rid k y
  assume IH: "\<And>tg rid k y. loop tg rid k = Some y
      \<Longrightarrow> y = Inl CancelledError \<and> (\<exists>j\<ge>k. sleep_cancelled tg j)"
    and step: "(case reply_attempt tg rid k of
        Inr val \<Rightarrow> Some (Inr val)
      | Inl _ \<Rightarrow>
          if sleep_cancelled tg k then Some (Inl CancelledError)
          else loop tg rid (Suc k)) = Some y"
  show "y = Inl CancelledError \<and> (\<exists>j\<ge>k. sleep_cancelled tg j)"
  proof (cases "sleep_cancelled tg k")
    case True
    with step show ?thesis by (auto simp: reply_attempt_fails)
  next
    case False
    with step have "loop tg rid (Suc k) = Some y" by (simp add: reply_attempt_fails)
    from IH [OF this] show ?thesis by (auto dest: Suc_leD)
  qed
qed

lemma reply_loop_None:
  assumes "\<forall>j. \<not> sleep_cancelled tg j"
  shows "reply_loop tg rid k = None"
proof (cases "reply_loop tg rid k")
  case None
  then show ?thesis .
next
  case (Some y)
  then show ?thesis using reply_loop_Some [OF Some] assms by blast
qed

text \<open>
  Claim C1, on the source. With \<^verbatim>\<open>wait=False\<close> and a timeout that is given and
  not zero, once the asynchronous request is accepted and as long as nobody
  cancels the task, \<^verbatim>\<open>put\<close> of either proxy variant never returns: whatever
  the timeout is and whatever the server answers, no reply is collected and
  no timeout failure is raised. Every attempt ends in the \<^verbatim>\<open>NameError\<close> of the
  unbound name \<^verbatim>\<open>dev\<close>, which the bare \<^verbatim>\<open>except\<close> swallows, and the timeout is
  never compared with the time that has passed.
\<close>

theorem put_with_timeout_never_returns:
  assumes "t \<noteq> 0"
    and "\<forall>j. \<not> sleep_cancelled tg j"
    and "write_attribute_asynch tg (attr_proxy ap) (attr_name ap) v = Inr rid"
    and "command_inout_asynch tg (cmd_proxy cp) (cmd_name cp) v = Inr rid'"
  shows "AttributeProxy_put tg ap v False (Some t) = None
       \<and> CommandProxy_put tg cp v False (Some t) = None"
  using assms
  by (simp add: AttributeProxy_put_def CommandProxy_put_def truthy_timeout_def reply_loop_None)

text \<open>
  On the test device the reply is ready at the third check, and a timeout
  of one second is given: neither \<^verbatim>\<open>put\<close> returns.
\<close>

theorem put_with_timeout_never_returns_witness:
  "(1::real) \<noteq> 0
   \<and> (\<forall>j. \<not> sleep_cancelled test_tango j)
   \<and> write_attribute_asynch test_tango test_device ''justvalue'' (PyInt 10) = Inr 7
   \<and> command_inout_asynch test_tango test_device ''clear'' (PyInt 10) = Inr 8
   \<and> reply_ready test_tango 7 2 = Inr (PyStr ''done'')
   \<and> AttributeProxy_put test_tango (new_AttributeProxy test_device ''justvalue'') (PyInt 10)
        False (Some 1) = None
   \<and> CommandProxy_put test_tango (new_CommandProxy test_device ''clear'') (PyInt 10)
        False (Some 1) = None"
  using put_with_timeout_never_returns
          [of 1 test_tango "new_AttributeProxy test_device ''justvalue''" "PyInt 10" 7
              "new_CommandProxy test_device ''clear''" 8]
  by (simp add: test_tango_def)

subsection \<open>Endpoint proxies: the command variant\<close>

text \<open>
  Claim C8. A fresh command proxy reports the value \<^verbatim>\<open>None\<close>, and \<^verbatim>\<open>get\<close> is
  the value of the cached reading. When \<^verbatim>\<open>put(x)\<close> (that is, with
  \<^verbatim>\<open>wait=True\<close>) returns, the cached reading is the value the server returned,
  the time of completion and the quality "valid"; \<^verbatim>\<open>get_reading\<close> reports
  that reading and \<^verbatim>\<open>get\<close> that value. The rest of the proxy is unchanged.
\<close>

theorem command_put_caches_result:
  assumes "command_inout tg (cmd_proxy p) (cmd_name p) x = Inr v"
  shows "reading_value (CommandProxy_get_reading (new_CommandProxy d n)) = PyNone
       \<and> CommandProxy_get q = reading_value (CommandProxy_get_reading q)
       \<and> CommandProxy_put tg p x True timeout
           = Some (Inr (), p\<lparr>last_reading :=
               \<lparr>reading_value = v, timestamp = time_now tg, alarm_severity = ATTR_VALID\<rparr>\<rparr>)
       \<and> CommandProxy_get_reading (p\<lparr>last_reading :=
               \<lparr>reading_value = v, timestamp = time_now tg, alarm_severity = ATTR_VALID\<rparr>\<rparr>)
           = \<lparr>reading_value = v, timestamp = time_now tg, alarm_severity = ATTR_VALID\<rparr>
       \<and> CommandProxy_get (p\<lparr>last_reading :=
               \<lparr>reading_value = v, timestamp = time_now tg, alarm_severity = ATTR_VALID\<rparr>\<rparr>) = v"
  using assms
  by (simp add: CommandProxy_put_def CommandProxy_get_def CommandProxy_get_reading_def
      new_CommandProxy_def store_reading_def ATTR_VALID_def)

text \<open>The command \<^verbatim>\<open>clear\<close> of the test device, which echoes its argument.\<close>

theorem command_put_caches_result_witness:
  "command_inout test_tango test_device ''clear'' (PyInt 3) = Inr (PyInt 3)
   \<and> CommandProxy_get (new_CommandProxy test_device ''clear'') = PyNone
   \<and> CommandProxy_put test_tango (new_CommandProxy test_device ''clear'') (PyInt 3) True None
       = Some (Inr (), \<lparr>cmd_proxy = test_device, cmd_name = ''clear'',
            last_reading = \<lparr>reading_value = PyInt 3, timestamp = 1700000000, alarm_severity = 0\<rparr>\<rparr>)"
  using command_put_caches_result
          [of test_tango "new_CommandProxy test_device ''clear''" "PyInt 3" "PyInt 3"
              test_device "''clear''" "new_CommandProxy test_device ''clear''" None]
  by (simp add: test_tango_simps new_CommandProxy_def CommandProxy_get_reading_def ATTR_VALID_def)

lemma asyncio_tango_simps:
  "command_inout_asynch asyncio_tango d n v
     = Inl (TypeError ''object int can't be used in 'await' expression'')"
  "command_inout asyncio_tango d n v = Inr v"
  "time_now asyncio_tango = 1700000000"
  by (simp_all add: asyncio_tango_def test_tango_def)

text \<open>
  Claim C10, on the source. With \<^verbatim>\<open>wait=False\<close> and no timeout, \<^verbatim>\<open>put\<close> sends the
  command and what it does next is decided by the awaited call of line 236.
  When that call raises, \<^verbatim>\<open>put\<close> ends with its exception and the cached
  reading is left as it was: this is the case on the asyncio device proxy,
  whose call returns a plain integer. Only when the awaited call yields a
  request id does the source go on to line 246 and store the value \<^verbatim>\<open>None\<close>.
\<close>

theorem command_put_nowait_outcome:
  "(command_inout_asynch tg (cmd_proxy p) (cmd_name p) x = Inl e \<longrightarrow>
      CommandProxy_put tg p x False None = Some (Inl e, p))
   \<and> (command_inout_asynch tg (cmd_proxy p) (cmd_name p) x = Inr rid \<longrightarrow>
      CommandProxy_put tg p x False None
        = Some (Inr (), p\<lparr>last_reading :=
             \<lparr>reading_value = PyNone, timestamp = time_now tg, alarm_severity = 0\<rparr>\<rparr>)
      \<and> CommandProxy_get (p\<lparr>last_reading :=
             \<lparr>reading_value = PyNone, timestamp = time_now tg, alarm_severity = 0\<rparr>\<rparr>) = PyNone
      \<and> reading_value (CommandProxy_get_reading (p\<lparr>last_reading :=
             \<lparr>reading_value = PyNone, timestamp = time_now tg, alarm_severity = 0\<rparr>\<rparr>)) = PyNone)"
  by (simp add: CommandProxy_put_def CommandProxy_get_def CommandProxy_get_reading_def
      store_reading_def truthy_timeout_def)

text \<open>
  On the asyncio device proxy: after \<^verbatim>\<open>put(3)\<close> the cache holds 3, then
  \<^verbatim>\<open>put(4, wait=False)\<close> raises \<^verbatim>\<open>TypeError\<close> and \<^verbatim>\<open>get\<close> still answers 3.
\<close>

theorem command_put_nowait_outcome_witness:
  "command_inout_asynch asyncio_tango test_device ''clear'' (PyInt 4)
     = Inl (TypeError ''object int can't be used in 'await' expression'')
   \<and> CommandProxy_put asyncio_tango (new_CommandProxy test_device ''clear'') (PyInt 3) True None
       = Some (Inr (), \<lparr>cmd_proxy = test_device, cmd_name = ''clear'',
            last_reading = \<lparr>reading_value = PyInt 3, timestamp = 1700000000, alarm_severity = 0\<rparr>\<rparr>)
   \<and> CommandProxy_put asyncio_tango
        \<lparr>cmd_proxy = test_device, cmd_name = ''clear'',
         last_reading = \<lparr>reading_value = PyInt 3, timestamp = 1700000000, alarm_severity = 0\<rparr>\<rparr>
        (PyInt 4) False None
       = Some (Inl (TypeError ''object int can't be used in 'await' expression''),
           \<lparr>cmd_proxy = test_device, cmd_name = ''clear'',
            last_reading = \<lparr>reading_value = PyInt 3, timestamp = 1700000000, alarm_severity = 0\<rparr>\<rparr>)
   \<and> CommandProxy_get
        \<lparr>cmd_proxy = test_device, cmd_name = ''clear'',
         last_reading = \<lparr>reading_value = PyInt 3, timestamp = 1700000000, alarm_severity = 0\<rparr>\<rparr>
       = PyInt 3"
  using command_put_nowait_outcome
          [where tg = asyncio_tango
             and p = "\<lparr>cmd_proxy = test_device, cmd_name = ''clear'',
                 last_reading = \<lparr>reading_value = PyInt 3, timestamp = 1700000000,
                   alarm_severity = 0\<rparr>\<rparr>"
             and x = "PyInt 4"
             and e = "TypeError ''object int can't be used in 'await' expression''"]
  by (simp add: asyncio_tango_simps CommandProxy_put_def CommandProxy_get_def
      new_CommandProxy_def store_reading_def)

subsection \<open>Endpoint proxies: subscriptions of the attribute variant\<close>

text \<open>
  Claim C9. On an attribute proxy that holds a subscription handle,
  \<^verbatim>\<open>subscribe_callback(cb)\<close> stores \<open>cb\<close> and nothing else: no event call is
  made, the handle is the same and \<^verbatim>\<open>has_subscription\<close> is still true.
  \<^verbatim>\<open>unsubscribe_callback\<close> on such a proxy, when the library accepts the call,
  unsubscribes that handle, drops it and clears the callback; on a proxy
  without handle it makes no event call, leaves the handle field as it is
  and clears the callback. In both cases \<^verbatim>\<open>has_subscription\<close> is false
  afterwards.
\<close>

theorem subscription_handle_reuse:
  "(has_subscription a \<longrightarrow>
      subscribe_callback tg a (Some cb) calls = (Inr (), a\<lparr>event_callback := Some cb\<rparr>, calls)
      \<and> eid (a\<lparr>event_callback := Some cb\<rparr>) = eid a
      \<and> has_subscription (a\<lparr>event_callback := Some cb\<rparr>))
   \<and> (has_subscription a \<and> eid a = Some i \<and> unsubscribe_event tg (attr_proxy a) i = Inr () \<longrightarrow>
      unsubscribe_callback tg a calls
        = (Inr (), a\<lparr>eid := None, event_callback := None\<rparr>, calls @ [Unsubscribe_event i])
      \<and> \<not> has_subscription (a\<lparr>eid := None, event_callback := None\<rparr>))
   \<and> (\<not> has_subscription a \<longrightarrow>
      unsubscribe_callback tg a calls = (Inr (), a\<lparr>event_callback := None\<rparr>, calls)
      \<and> eid (a\<lparr>event_callback := None\<rparr>) = eid a
      \<and> \<not> has_subscription (a\<lparr>event_callback := None\<rparr>))"
  by (auto simp: has_subscription_def truthy_eid_def subscribe_callback_def
      unsubscribe_callback_def Let_def split: option.splits)

text \<open>
  The attribute \<^verbatim>\<open>justvalue\<close>: a first subscription opens the handle 1, a
  second callback replaces the first without a second event call, and
  unsubscribing releases the handle 1.
\<close>

theorem subscription_handle_reuse_witness:
  "subscribe_callback test_tango (new_AttributeProxy test_device ''justvalue'') (Some (Callback 1)) []
     = (Inr (), \<lparr>attr_proxy = test_device, attr_name = ''justvalue'',
                 event_callback = Some (Callback 1), eid = Some 1\<rparr>,
        [Subscribe_event ''justvalue''])
   \<and> has_subscription \<lparr>attr_proxy = test_device, attr_name = ''justvalue'',
                 event_callback = Some (Callback 1), eid = Some 1\<rparr>
   \<and> subscribe_callback test_tango \<lparr>attr_proxy = test_device, attr_name = ''justvalue'',
                 event_callback = Some (Callback 1), eid = Some 1\<rparr> (Some (Callback 2))
        [Subscribe_event ''justvalue'']
     = (Inr (), \<lparr>attr_proxy = test_device, attr_name = ''justvalue'',
                 event_callback = Some (Callback 2), eid = Some 1\<rparr>,
        [Subscribe_event ''justvalue''])
   \<and> unsubscribe_callback test_tango \<lparr>attr_proxy = test_device, attr_name = ''justvalue'',
                 event_callback = Some (Callback 1), eid = Some 1\<rparr> [Subscribe_event ''justvalue'']
     = (Inr (), \<lparr>attr_proxy = test_device, attr_name = ''justvalue'',
                 event_callback = None, eid = None\<rparr>,
        [Subscribe_event ''justvalue'', Unsubscribe_event 1])
   \<and> \<not> has_subscription (new_AttributeProxy test_device ''justvalue'')
   \<and> unsubscribe_callback test_tango (new_AttributeProxy test_device ''justvalue'') []
     = (Inr (), new_AttributeProxy test_device ''justvalue'', [])"
  using subscription_handle_reuse
          [of "\<lparr>attr_proxy = test_device, attr_name = ''justvalue'',
                 event_callback = Some (Callback 1), eid = Some 1\<rparr>"
              test_tango "Callback 2" "[Subscribe_event ''justvalue'']" 1]
        subscription_handle_reuse
          [of "new_AttributeProxy test_device ''justvalue''" test_tango "Callback 2" "[]" 1]
  by (simp add: test_tango_simps has_subscription_def truthy_eid_def new_AttributeProxy_def
      subscribe_callback_def)

subsection \<open>Transport: callbacks\<close>

text \<open>
  Claim C7. On a transport whose read-side proxy is resolved: when the proxy
  does not support events, \<^verbatim>\<open>set_callback\<close> fails with the assertion "does
  not support events", whatever is passed; when it supports events and
  holds a subscription, \<^verbatim>\<open>set_callback\<close> with a callback fails with the
  assertion "Cannot set a callback when one is already set". In both cases
  the transport and the trace of event calls are unchanged. Passing \<^verbatim>\<open>None\<close>
  to a transport whose read side is an attribute proxy unsubscribes: the
  handle is released and the callback cleared, and without a handle only
  the callback is cleared.
\<close>

theorem set_callback_failures:
  assumes "map_of (proxies self) (read_trl self) = Some (Resolved p)"
  shows "(\<not> support_events p \<longrightarrow>
            set_callback tg self cb calls
              = (Inl (AssertionError (transport_source self @ '' does not support events'')),
                 self, calls))
       \<and> (support_events p \<and> proxy_has_subscription p \<longrightarrow>
            set_callback tg self (Some c) calls
              = (Inl (AssertionError ''Cannot set a callback when one is already set''),
                 self, calls))
       \<and> (p = Attribute a \<and> has_subscription a \<and> eid a = Some i
            \<and> unsubscribe_event tg (attr_proxy a) i = Inr () \<longrightarrow>
            set_callback tg self None calls
              = (Inr (),
                 self\<lparr>proxies := AList.update (read_trl self)
                    (Resolved (Attribute (a\<lparr>eid := None, event_callback := None\<rparr>))) (proxies self)\<rparr>,
                 calls @ [Unsubscribe_event i]))
       \<and> (p = Attribute a \<and> \<not> has_subscription a \<longrightarrow>
            set_callback tg self None calls
              = (Inr (),
                 self\<lparr>proxies := AList.update (read_trl self)
                    (Resolved (Attribute (a\<lparr>event_callback := None\<rparr>))) (proxies self)\<rparr>,
                 calls))"
  using assms
  by (auto simp: set_callback_def support_events_def proxy_has_subscription_def
      proxy_unsubscribe_callback_def unsubscribe_callback_def has_subscription_def truthy_eid_def
      split: option.splits TangoProxy.splits)

text \<open>
  A transport on the command \<^verbatim>\<open>clear\<close>, and a transport on the attribute
  \<^verbatim>\<open>justvalue\<close> that holds the handle 1.
\<close>

theorem set_callback_failures_witness:
  "set_callback test_tango
      \<lparr>transport_datatype = None, read_trl = ''test/device/1/clear'',
       write_trl = ''test/device/1/clear'',
       proxies = [(''test/device/1/clear'', Resolved (Command (new_CommandProxy test_device ''clear'')))],
       trl_configs = [], transport_source = ''test/device/1/clear'', transport_descriptor = None\<rparr>
      (Some (Callback 1)) []
     = (Inl (AssertionError ''test/device/1/clear does not support events''),
        \<lparr>transport_datatype = None, read_trl = ''test/device/1/clear'',
         write_trl = ''test/device/1/clear'',
         proxies = [(''test/device/1/clear'', Resolved (Command (new_CommandProxy test_device ''clear'')))],
         trl_configs = [], transport_source = ''test/device/1/clear'', transport_descriptor = None\<rparr>,
        [])
   \<and> set_callback test_tango
      \<lparr>transport_datatype = None, read_trl = ''test/device/1/justvalue'',
       write_trl = ''test/device/1/justvalue'',
       proxies = [(''test/device/1/justvalue'', Resolved (Attribute
          \<lparr>attr_proxy = test_device, attr_name = ''justvalue'',
           event_callback = Some (Callback 1), eid = Some 1\<rparr>))],
       trl_configs = [], transport_source = ''test/device/1/justvalue'', transport_descriptor = None\<rparr>
      (Some (Callback 2)) [Subscribe_event ''justvalue'']
     = (Inl (AssertionError ''Cannot set a callback when one is already set''),
        \<lparr>transport_datatype = None, read_trl = ''test/device/1/justvalue'',
         write_trl = ''test/device/1/justvalue'',
         proxies = [(''test/device/1/justvalue'', Resolved (Attribute
            \<lparr>attr_proxy = test_device, attr_name = ''justvalue'',
             event_callback = Some (Callback 1), eid = Some 1\<rparr>))],
         trl_configs = [], transport_source = ''test/device/1/justvalue'', transport_descriptor = None\<rparr>,
        [Subscribe_event ''justvalue''])
   \<and> set_callback test_tango
      \<lparr>transport_datatype = None, read_trl = ''test/device/1/justvalue'',
       write_trl = ''test/device/1/justvalue'',
       proxies = [(''test/device/1/justvalue'', Resolved (Attribute
          \<lparr>attr_proxy = test_device, attr_name = ''justvalue'',
           event_callback = Some (Callback 1), eid = Some 1\<rparr>))],
       trl_configs = [], transport_source = ''test/device/1/justvalue'', transport_descriptor = None\<rparr>
      None [Subscribe_event ''justvalue'']
     = (Inr (),
        \<lparr>transport_datatype = None, read_trl = ''test/device/1/justvalue'',
         write_trl = ''test/device/1/justvalue'',
         proxies = [(''test/device/1/justvalue'', Resolved (Attribute
            \<lparr>attr_proxy = test_device, attr_name = ''justvalue'',
             event_callback = None, eid = None\<rparr>))],
         trl_configs = [], transport_source = ''test/device/1/justvalue'', transport_descriptor = None\<rparr>,
        [Subscribe_event ''justvalue'', Unsubscribe_event 1])"
  using set_callback_failures
          [of "\<lparr>transport_datatype = None, read_trl = ''test/device/1/clear'',
                write_trl = ''test/device/1/clear'',
                proxies = [(''test/device/1/clear'',
                            Resolved (Command (new_CommandProxy test_device ''clear'')))],
                trl_configs = [], transport_source = ''test/device/1/clear'',
                transport_descriptor = None\<rparr>"
              "Command (new_CommandProxy test_device ''clear'')"
              test_tango "Some (Callback 1)" "[]"]
        set_callback_failures
          [of "\<lparr>transport_datatype = None, read_trl = ''test/device/1/justvalue'',
                write_trl = ''test/device/1/justvalue'',
                proxies = [(''test/device/1/justvalue'', Resolved (Attribute
                   \<lparr>attr_proxy = test_device, attr_name = ''justvalue'',
                    event_callback = Some (Callback 1), eid = Some 1\<rparr>))],
                trl_configs = [], transport_source = ''test/device/1/justvalue'',
                transport_descriptor = None\<rparr>"
              "Attribute \<lparr>attr_proxy = test_device, attr_name = ''justvalue'',
                    event_callback = Some (Callback 1), eid = Some 1\<rparr>"
              test_tango _ "[Subscribe_event ''justvalue'']" "Callback 2"
              "\<lparr>attr_proxy = test_device, attr_name = ''justvalue'',
                    event_callback = Some (Callback 1), eid = Some 1\<rparr>" 1]
  by (simp add: test_tango_simps support_events_def proxy_has_subscription_def
      has_subscription_def truthy_eid_def)

subsection \<open>Transport: connecting\<close>

lemma tr_dtype_of_not_cancelled: "tr_dtype_of cfg \<noteq> Inl CancelledError"
  by (auto simp: tr_dtype_of_def get_pyton_type_def Let_def
      split: config.splits sum.splits if_splits)

lemma collect_tr_dtype_not_cancelled: "collect_tr_dtype cfgs acc \<noteq> Inl CancelledError"
  by (induction cfgs acc rule: collect_tr_dtype.induct)
     (auto simp: tr_dtype_of_not_cancelled split: sum.splits)

lemma get_unique_not_cancelled: "get_unique vals types \<noteq> Inl CancelledError"
  by (auto simp: get_unique_def split: list.splits)

lemma get_trl_descriptor_not_cancelled: "get_trl_descriptor dt src cfgs \<noteq> Inl CancelledError"
  using collect_tr_dtype_not_cancelled [of cfgs "[]"]
  by (auto simp: get_trl_descriptor_def Let_def check_array_datatype_def check_enum_datatype_def
      check_scalar_datatype_def get_unique_not_cancelled
      split: sum.splits list.splits option.splits if_splits prod.splits)

lemma step_not_cancelled: "fst (connect_and_store_config tg self trl) \<noteq> Inl CancelledError"
  by (auto simp: connect_and_store_config_def split: prod.splits sum.splits exn.splits)

lemma step_translates:
  "fst (connect_body tg self trl) = Inl CancelledError
   \<Longrightarrow> fst (connect_and_store_config tg self trl)
       = Inl (NotConnected (transport_source (snd (connect_body tg self trl))))"
  by (auto simp: connect_and_store_config_def split: prod.splits sum.splits exn.splits)

lemma connect_body_source:
  "transport_source (snd (connect_body tg self trl)) = transport_source self"
  by (auto simp: connect_body_def Let_def split: option.splits sum.splits proxy_slot.splits)

lemma connect_same_locator:
  assumes "read_trl self = write_trl self"
  shows "fst (connect wfc write_first tg self)
     = (case connect_and_store_config tg self (read_trl self) of
          (Inl e, self') \<Rightarrow> Inl e
        | (Inr _, self') \<Rightarrow>
            (case get_trl_descriptor (transport_datatype self') (read_trl self') (trl_configs self') of
               Inl e \<Rightarrow> Inl e | Inr d \<Rightarrow> Inr ()))"
  using assms by (simp add: connect_def split: prod.splits sum.splits)

text \<open>
  Claim C2. The transport's source is its read locator. For either locator
  \<open>trl\<close> the connect step never ends in a raw cancellation, and where its body
  is cancelled it ends in \<^verbatim>\<open>NotConnected\<close> of the read locator: so when the
  connection to the device is cancelled, and so when the fetch of the config
  is cancelled. With one locator for both sides, \<^verbatim>\<open>connect\<close> itself never
  ends in a raw cancellation and ends in \<^verbatim>\<open>NotConnected\<close> of the read locator
  when its step is cancelled.
\<close>

theorem cancelled_connect_is_NotConnected:
  assumes "transport_source self = read_trl self"
  shows "transport_source (new_TangoTransport dt r w d0) = read_trl (new_TangoTransport dt r w d0)
       \<and> fst (connect_and_store_config tg self trl) \<noteq> Inl CancelledError
       \<and> (fst (connect_body tg self trl) = Inl CancelledError \<longrightarrow>
            fst (connect_and_store_config tg self trl) = Inl (NotConnected (read_trl self)))
       \<and> (map_of (proxies self) trl = Some (Unresolved None)
            \<and> rsplit_slash trl = Some (device_trl, name)
            \<and> connect_device tg device_trl = Inl CancelledError \<longrightarrow>
            fst (connect_and_store_config tg self trl) = Inl (NotConnected (read_trl self)))
       \<and> (map_of (proxies self) trl = Some (Unresolved dp)
            \<and> get_tango_trl tg trl dp = Inr p
            \<and> get_config tg p = Inl CancelledError \<longrightarrow>
            fst (connect_and_store_config tg self trl) = Inl (NotConnected (read_trl self)))
       \<and> (read_trl self = write_trl self \<longrightarrow>
            fst (connect wfc write_first tg self) \<noteq> Inl CancelledError)
       \<and> (read_trl self = write_trl self
            \<and> fst (connect_body tg self (read_trl self)) = Inl CancelledError \<longrightarrow>
            fst (connect wfc write_first tg self) = Inl (NotConnected (read_trl self)))"
proof -
  have fresh: "transport_source (new_TangoTransport dt r w d0)
      = read_trl (new_TangoTransport dt r w d0)"
    by (simp add: new_TangoTransport_def)
  have translate: "fst (connect_and_store_config tg self l) = Inl (NotConnected (read_trl self))"
    if "fst (connect_body tg self l) = Inl CancelledError" for l
    using step_translates [OF that] connect_body_source [of tg self l] assms by simp
  have device: "fst (connect_body tg self trl) = Inl CancelledError"
    if "map_of (proxies self) trl = Some (Unresolved None)"
      "rsplit_slash trl = Some (device_trl, name)"
      "connect_device tg device_trl = Inl CancelledError"
    using that by (simp add: connect_body_def get_tango_trl_def)
  have config: "fst (connect_body tg self trl) = Inl CancelledError"
    if "map_of (proxies self) trl = Some (Unresolved dp)"
      "get_tango_trl tg trl dp = Inr p" "get_config tg p = Inl CancelledError"
    using that by (simp add: connect_body_def Let_def)
  have same: "fst (connect wfc write_first tg self) \<noteq> Inl CancelledError"
    if "read_trl self = write_trl self"
    using step_not_cancelled [of tg self "read_trl self"] get_trl_descriptor_not_cancelled
    by (auto simp: connect_same_locator [OF that] split: prod.splits sum.splits)
  have same_cancel: "fst (connect wfc write_first tg self) = Inl (NotConnected (read_trl self))"
    if "read_trl self = write_trl self"
      "fst (connect_body tg self (read_trl self)) = Inl CancelledError"
    using translate [OF that(2)]
    by (auto simp: connect_same_locator [OF that(1)] split: prod.splits sum.splits)
  show ?thesis
    using fresh step_not_cancelled translate device config same same_cancel by blast
qed

text \<open>
  A fresh transport that reads \<^verbatim>\<open>justvalue\<close> and writes \<^verbatim>\<open>array\<close>, on a library
  whose connection to the device is cancelled: the step for the write
  locator ends in \<^verbatim>\<open>NotConnected\<close> of the read locator.
\<close>

theorem cancelled_connect_is_NotConnected_witness:
  "transport_source (new_TangoTransport None ''test/device/1/justvalue'' ''test/device/1/array'' None)
     = read_trl (new_TangoTransport None ''test/device/1/justvalue'' ''test/device/1/array'' None)
   \<and> map_of (proxies (new_TangoTransport None ''test/device/1/justvalue'' ''test/device/1/array'' None))
        ''test/device/1/array'' = Some (Unresolved None)
   \<and> rsplit_slash ''test/device/1/array'' = Some (''test/device/1'', ''array'')
   \<and> connect_device (test_tango\<lparr>connect_device := \<lambda>device_trl. Inl CancelledError\<rparr>)
        ''test/device/1'' = Inl CancelledError
   \<and> fst (connect_and_store_config (test_tango\<lparr>connect_device := \<lambda>device_trl. Inl CancelledError\<rparr>)
        (new_TangoTransport None ''test/device/1/justvalue'' ''test/device/1/array'' None)
        ''test/device/1/array'') = Inl (NotConnected ''test/device/1/justvalue'')"
  using cancelled_connect_is_NotConnected
          [where self = "new_TangoTransport None ''test/device/1/justvalue''
                           ''test/device/1/array'' None"
             and tg = "test_tango\<lparr>connect_device := \<lambda>device_trl. Inl CancelledError\<rparr>"
             and trl = "''test/device/1/array''" and device_trl = "''test/device/1''"
             and name = "''array''"]
  by (simp add: new_TangoTransport_def rsplit_slash_def)

end
